theory Spec2Isabelle
  imports Main "HOL-Library.Word" "HOL-Library.List_Lexorder" "HOL-Library.Product_Lexorder"
begin

unbundle bit_operations_syntax

chapter \<open>The embedding of DesktopRVersion.cpp\<close>

section \<open>Machine types and strings\<close>

text \<open>
  \<^verbatim>\<open>DWORD\<close>, \<^verbatim>\<open>quint32\<close> and \<^verbatim>\<open>uint32_t\<close> are unsigned 32-bit values, \<^verbatim>\<open>WORD\<close> and
  \<^verbatim>\<open>uint16_t\<close> unsigned 16-bit values, a byte of a file an unsigned 8-bit value. C++
  \<^verbatim>\<open>int\<close> parameters are modelled as \<open>int\<close>; what is proved about them holds for all
  integers, hence for the 32-bit ones. A \<^verbatim>\<open>QString\<close> or \<^verbatim>\<open>std::string\<close> is a \<open>string\<close>;
  the null and the empty \<^verbatim>\<open>QString\<close> are both \<open>[]\<close> (they compare equal and both are
  \<^verbatim>\<open>isEmpty()\<close>).
\<close>

type_synonym DWORD = "32 word"
type_synonym WORD = "16 word"
type_synonym byte = "8 word"
type_synonym QString = string

text \<open>The \<^verbatim>\<open>HIWORD\<close> and \<^verbatim>\<open>LOWORD\<close> macros of the Windows headers.\<close>

definition HIWORD :: "DWORD \<Rightarrow> WORD" where
  "HIWORD l = ucast (drop_bit 16 l AND 0xffff)"

definition LOWORD :: "DWORD \<Rightarrow> WORD" where
  "LOWORD l = ucast (l AND 0xffff)"

text \<open>
  \<^verbatim>\<open>QString::compare(a, b, Qt::CaseInsensitive)\<close>: the strings are compared unit by unit
  after case folding; the result is negative, zero or positive. Qt is not part of
  the sources; the model folds the ASCII letters (all that the paths of the examples
  below use) and leaves every other character alone.
\<close>

definition foldCase :: "char \<Rightarrow> nat" where
  "foldCase c =
     (let n = of_char c in if (65::nat) \<le> n \<and> n \<le> 90 then n + 32 else n)"

fun QString_compare :: "QString \<Rightarrow> QString \<Rightarrow> int" where
  "QString_compare [] [] = 0"
| "QString_compare [] (y # ys) = -1"
| "QString_compare (x # xs) [] = 1"
| "QString_compare (x # xs) (y # ys) =
     (if foldCase x = foldCase y then QString_compare xs ys
      else int (foldCase x) - int (foldCase y))"

section \<open>Minimum version check\<close>

text \<open>
  \<^verbatim>\<open>confirmMinVersion(DWORD version, int major, int minor)\<close>. The comparisons promote
  the unsigned 16-bit halves to \<^verbatim>\<open>int\<close>.
\<close>

definition confirmMinVersion :: "DWORD \<Rightarrow> int \<Rightarrow> int \<Rightarrow> bool" where
  "confirmMinVersion version major minor =
     (let fileMajor = HIWORD version in
      if uint fileMajor > major then True
      else if uint fileMajor < major then False
      else uint (LOWORD version) \<ge> minor)"

section \<open>The machine and the build\<close>

text \<open>
  Modelled from the spec: the enumerations \<^verbatim>\<open>Architecture\<close> and \<^verbatim>\<open>ValidateResult\<close>
  of DesktopRVersion.hpp, which is not among the sources. The architecture is one
  of none, X86, X64 and unknown; of the results of validation the code uses the
  three below. The integer values of the architectures, which \<^verbatim>\<open>compareTo\<close>
  subtracts, are a parameter (\<open>archValue\<close> below).
\<close>

datatype Architecture = ArchNone | ArchX86 | ArchX64 | ArchUnknown

datatype ValidateResult = ValidateSuccess | ValidateNotFound | ValidateVersionTooOld

text \<open>
  Modelled from the spec: the registry interface (core/system/RegistryKey.hpp is not
  among the sources). A key is opened from a root or from an opened key, with access
  flags; the outcome is a handle, or an error whose code is either
  \<^verbatim>\<open>no_such_file_or_directory\<close> or something else. A handle gives the names of its
  subkeys and its string values, with a default. These operations are the fields
  \<open>regOpen\<close>, \<open>keyNames\<close> and \<open>getStringValue\<close> of the record below.
\<close>

datatype HKEY = HKEY_CURRENT_USER | HKEY_LOCAL_MACHINE | KeyHandle nat

datatype Error = no_such_file_or_directory | other_error nat

text \<open>
  Everything the code reads from outside itself is a field of one record, so that
  the functions below are functions of it.

  \<^item> Qt's path algebra and directory queries, as functions of the path a \<^verbatim>\<open>QDir\<close>
    holds. Qt is not part of the sources; its operations are parameters.
  \<^item> The files: whether a path exists (\<^verbatim>\<open>QFile::exists\<close>), the bytes an
    \<^verbatim>\<open>ifstream\<close> can read (\<open>None\<close> when the file cannot be opened; a file that
    cannot be read beyond some byte is a file that ends there), and the
    \<^verbatim>\<open>dwFileVersionMS\<close> of its version resource (\<open>None\<close> when one of
    \<^verbatim>\<open>GetFileVersionInfoSize\<close>, \<^verbatim>\<open>GetFileVersionInfo\<close>, \<^verbatim>\<open>VerQueryValue\<close> fails).
  \<^item> \<open>indeterminate\<close>: the values the three uninitialised locals of \<^verbatim>\<open>read<T>\<close> hold
    in \<^verbatim>\<open>getArch\<close> when \<^verbatim>\<open>stream.read\<close> does not fill them.
  \<^item> The registry, through \<^verbatim>\<open>RegistryKey\<close> (\<^verbatim>\<open>open\<close>, \<^verbatim>\<open>keyNames\<close>,
    \<^verbatim>\<open>getStringValue\<close>), which is not among the sources either.
  \<^item> The process environment (\<open>None\<close>: the variable is not set) and the path of the
    executable.
  \<^item> The constants of the build: \<^verbatim>\<open>CONDA_BUILD\<close>, the three
    \<^verbatim>\<open>RSTUDIO_R_*_VERSION_REQUIRED\<close> macros, and the integer values of the
    \<^verbatim>\<open>Architecture\<close> enumerators (declared in DesktopRVersion.hpp).
\<close>

record host =
  isAbsolute :: "QString \<Rightarrow> bool"
  dirName :: "QString \<Rightarrow> QString"
  filePath :: "QString \<Rightarrow> QString \<Rightarrow> QString"
  cleanPath :: "QString \<Rightarrow> QString"
  absolutePath :: "QString \<Rightarrow> QString"
  absoluteFilePath :: "QString \<Rightarrow> QString \<Rightarrow> QString"
  cd :: "QString \<Rightarrow> QString \<Rightarrow> QString option"
  dirExists :: "QString \<Rightarrow> bool"
  dirHas :: "QString \<Rightarrow> QString \<Rightarrow> bool"
  entryList :: "QString \<Rightarrow> QString list"
  fileExists :: "QString \<Rightarrow> bool"
  fileBytes :: "QString \<Rightarrow> byte list option"
  fileVersionMS :: "QString \<Rightarrow> DWORD option"
  indeterminate :: "QString \<Rightarrow> DWORD \<times> DWORD \<times> WORD"
  regOpen :: "HKEY \<Rightarrow> string \<Rightarrow> DWORD \<Rightarrow> Error + HKEY"
  keyNames :: "HKEY \<Rightarrow> string list"
  getStringValue :: "HKEY \<Rightarrow> string \<Rightarrow> string \<Rightarrow> string"
  environ :: "string \<Rightarrow> string option"
  applicationFilePath :: QString
  CONDA_BUILD :: bool
  R_MAJOR_VERSION_REQUIRED :: int
  R_MINOR_VERSION_REQUIRED :: int
  R_PATCH_VERSION_REQUIRED :: int
  archValue :: "Architecture \<Rightarrow> int"

text \<open>
  \<^verbatim>\<open>QDir(path)\<close>. Modelled from the Qt documentation of the constructor: an empty
  path denotes the working directory of the program, \<^verbatim>\<open>"."\<close>.
\<close>

definition QDir :: "QString \<Rightarrow> QString" where
  "QDir path = (if path = [] then ''.'' else path)"

text \<open>
  Modelled from the spec: \<^verbatim>\<open>core::system::getenv\<close> (core/system/Environment.hpp is not
  among the sources) gives the empty string when the variable is not set.
\<close>

definition getenv :: "host \<Rightarrow> string \<Rightarrow> string" where
  "getenv h name = (case environ h name of None \<Rightarrow> [] | Some v \<Rightarrow> v)"

section \<open>Version resource and PE header\<close>

definition getVersion :: "host \<Rightarrow> QString \<Rightarrow> DWORD" where
  "getVersion h path =
     (if \<not> fileExists h path then 0
      else case fileVersionMS h path of None \<Rightarrow> 0 | Some v \<Rightarrow> v)"

text \<open>
  An \<^verbatim>\<open>std::ifstream\<close> opened for binary reading: the bytes of the file, the read
  position and whether the stream is still \<^verbatim>\<open>good()\<close>. A file that cannot be opened
  gives a stream that is not good. \<^verbatim>\<open>seekg\<close> does nothing on a failed stream and
  otherwise moves to the offset (a file position may lie beyond the end). A
  \<^verbatim>\<open>read\<close> of \<open>n\<close> bytes that finds fewer than \<open>n\<close> sets \<^verbatim>\<open>eofbit\<close> and
  \<^verbatim>\<open>failbit\<close>; the stream is then not good for the rest of its life.
\<close>

record ifstream =
  content :: "byte list"
  gpos :: nat
  good :: bool

definition ifstream_open :: "host \<Rightarrow> QString \<Rightarrow> ifstream" where
  "ifstream_open h path =
     (case fileBytes h path of
        None \<Rightarrow> \<lparr>content = [], gpos = 0, good = False\<rparr>
      | Some bs \<Rightarrow> \<lparr>content = bs, gpos = 0, good = True\<rparr>)"

definition seekg :: "nat \<Rightarrow> ifstream \<Rightarrow> ifstream" where
  "seekg off s = (if good s then s\<lparr>gpos := off\<rparr> else s)"

definition stream_read :: "nat \<Rightarrow> ifstream \<Rightarrow> byte list option \<times> ifstream" where
  "stream_read n s =
     (if good s \<and> gpos s + n \<le> length (content s)
      then (Some (take n (drop (gpos s) (content s))), s\<lparr>gpos := gpos s + n\<rparr>)
      else (None, s\<lparr>good := False\<rparr>))"

text \<open>
  The word that a sequence of bytes is in memory, the least significant byte first
  (the byte order of the x86 family).
\<close>

fun le_word :: "byte list \<Rightarrow> 'a::len word" where
  "le_word [] = 0"
| "le_word (b # bs) = ucast b + 256 * le_word bs"

text \<open>
  \<^verbatim>\<open>read<T>(stream)\<close>: \<^verbatim>\<open>T val; stream.read(&val, sizeof(val)); return val;\<close>. When the
  read fails, what is returned is whatever \<^verbatim>\<open>val\<close> holds; the first argument stands
  for it.
\<close>

definition read_uint32 :: "DWORD \<Rightarrow> ifstream \<Rightarrow> DWORD \<times> ifstream" where
  "read_uint32 junk s =
     (case stream_read 4 s of
        (Some bs, s') \<Rightarrow> (le_word bs, s')
      | (None, s') \<Rightarrow> (junk, s'))"

definition read_uint16 :: "WORD \<Rightarrow> ifstream \<Rightarrow> WORD \<times> ifstream" where
  "read_uint16 junk s =
     (case stream_read 2 s of
        (Some bs, s') \<Rightarrow> (le_word bs, s')
      | (None, s') \<Rightarrow> (junk, s'))"

definition IMAGE_FILE_MACHINE_I386 :: WORD where
  "IMAGE_FILE_MACHINE_I386 = 0x014c"

definition IMAGE_FILE_MACHINE_AMD64 :: WORD where
  "IMAGE_FILE_MACHINE_AMD64 = 0x8664"

definition getArch_stream :: "DWORD \<times> DWORD \<times> WORD \<Rightarrow> ifstream \<Rightarrow> Architecture" where
  "getArch_stream junk stream0 =
     (let (j1, j2, j3) = junk;
          stream1 = seekg 0x3C stream0;
          (headerOffset, stream2) = read_uint32 j1 stream1;
          stream3 = seekg (unat headerOffset) stream2;
          (header, stream4) = read_uint32 j2 stream3
      in if header \<noteq> 0x4550 then ArchNone
         else let (arch, stream5) = read_uint16 j3 stream4
              in if \<not> good stream5 then ArchNone
                 else if arch = IMAGE_FILE_MACHINE_I386 then ArchX86
                 else if arch = IMAGE_FILE_MACHINE_AMD64 then ArchX64
                 else ArchUnknown)"

definition getArch :: "host \<Rightarrow> QString \<Rightarrow> Architecture" where
  "getArch h path =
     (if \<not> fileExists h path then ArchNone
      else getArch_stream (indeterminate h path) (ifstream_open h path))"

section \<open>Installation records\<close>

text \<open>
  Given an R bin directory, the best guess at its home directory; it tries even if
  the bin directory does not exist. \<^verbatim>\<open>dir.setPath(p)\<close> is the rebinding of \<open>dir\<close>.
\<close>

definition binDirToHomeDir :: "host \<Rightarrow> QString \<Rightarrow> QString" where
  "binDirToHomeDir h binDir =
     (if binDir = [] then []
      else let dir = QDir binDir in
        if \<not> isAbsolute h dir then []
        else let dir = (if dirName h dir \<noteq> ''bin''
                        then cleanPath h (filePath h dir ''..'') else dir)
             in if dirName h dir = ''bin''
                then cleanPath h (filePath h dir ''..'')
                else [])"

text \<open>
  The class \<^verbatim>\<open>RVersion\<close>: its four members, read by the accessors of the same names,
  and its constructor \<^verbatim>\<open>RVersion(QString binDir = QString())\<close>.
\<close>

record RVersion =
  binDir :: QString
  homeDir :: QString
  version :: DWORD
  architecture :: Architecture

definition RVersion :: "host \<Rightarrow> QString \<Rightarrow> RVersion" where
  "RVersion h dir =
     (if dir \<noteq> []
      then let dllPath = absoluteFilePath h (QDir dir) ''R.dll''
           in \<lparr>binDir = dir, homeDir = binDirToHomeDir h dir,
               version = getVersion h dllPath, architecture = getArch h dllPath\<rparr>
      else \<lparr>binDir = dir, homeDir = binDirToHomeDir h dir,
            version = 0, architecture = ArchNone\<rparr>)"

definition isEmpty :: "RVersion \<Rightarrow> bool" where
  "isEmpty v = (binDir v = [])"

definition validate :: "host \<Rightarrow> RVersion \<Rightarrow> ValidateResult" where
  "validate h v =
     (if isEmpty v \<or> homeDir v = [] then ValidateNotFound
      else if \<not> dirHas h (QDir (binDir v)) ''R.dll'' then ValidateNotFound
      else if \<not> confirmMinVersion (version v) (R_MAJOR_VERSION_REQUIRED h)
                (R_MINOR_VERSION_REQUIRED h + R_PATCH_VERSION_REQUIRED h)
      then ValidateVersionTooOld
      else ValidateSuccess)"

definition isValid :: "host \<Rightarrow> RVersion \<Rightarrow> bool" where
  "isValid h v = (validate h v = ValidateSuccess)"

text \<open>
  \<^verbatim>\<open>compareTo\<close>. The two versions are cast to \<^verbatim>\<open>int\<close> and subtracted; on 32-bit
  two's complement integers that is the signed reading of the difference of the
  words (where the C++ subtraction does not overflow the two agree, and where it
  does the model wraps around, as the compiled code does).
\<close>

definition compareTo :: "host \<Rightarrow> RVersion \<Rightarrow> RVersion \<Rightarrow> int" where
  "compareTo h a other =
     (let c = sint (- (version a - version other)) in
      if c \<noteq> 0 then c
      else let c = QString_compare (homeDir a) (homeDir other) in
      if c \<noteq> 0 then c
      else let c = - (archValue h (architecture a) - archValue h (architecture other)) in
      if c \<noteq> 0 then c
      else let c = QString_compare (binDir a) (binDir other) in
      if c \<noteq> 0 then c
      else 0)"

text \<open>\<^verbatim>\<open>operator<\<close> and \<^verbatim>\<open>operator==\<close>.\<close>

definition RVersion_less :: "host \<Rightarrow> RVersion \<Rightarrow> RVersion \<Rightarrow> bool" where
  "RVersion_less h a other = (compareTo h a other < 0)"

definition RVersion_equals :: "RVersion \<Rightarrow> RVersion \<Rightarrow> bool" where
  "RVersion_equals a other = (QString_compare (binDir a) (binDir other) = 0)"

text \<open>
  What \<^verbatim>\<open>compareTo\<close> is meant to compare, as one key ordered lexicographically: the
  version descending, the folded home directory, the architecture by descending
  value of its enumerator, the folded bin directory.
\<close>

definition sortKey :: "host \<Rightarrow> RVersion \<Rightarrow> int \<times> nat list \<times> int \<times> nat list" where
  "sortKey h v =
     (- uint (version v), map foldCase (homeDir v),
      - archValue h (architecture v), map foldCase (binDir v))"

section \<open>Candidate enumerators\<close>

text \<open>
  Given an R home directory, add candidates for its child bin directories to the
  list. \<^verbatim>\<open>tmp.cd(d)\<close> is \<open>cd h rHome d\<close>: the new path when the directory exists.
\<close>

definition versionsFromRHome :: "host \<Rightarrow> QString \<Rightarrow> RVersion list \<Rightarrow> RVersion list" where
  "versionsFromRHome h rHome pResults =
     foldl (\<lambda>results d.
              case cd h rHome d of
                None \<Rightarrow> results
              | Some tmp \<Rightarrow>
                  if dirHas h tmp ''R.dll''
                  then results @ [RVersion h (absolutePath h tmp)]
                  else results)
       pResults [''bin'', ''bin/x64'']"

definition detectVersionsInDir :: "host \<Rightarrow> QString \<Rightarrow> RVersion list" where
  "detectVersionsInDir h dir =
     (let qdir = QDir dir in
      if dirHas h qdir ''R.dll'' then [RVersion h (absolutePath h qdir)]
      else let qdir = (if dirName h qdir = ''bin''
                       then binDirToHomeDir h (absolutePath h qdir) else qdir)
           in versionsFromRHome h qdir [])"

text \<open>The two overloads of \<^verbatim>\<open>enumProgramFiles\<close>: one directory, and all of them.\<close>

definition enumProgramFiles_dir :: "host \<Rightarrow> QString \<Rightarrow> RVersion list \<Rightarrow> RVersion list" where
  "enumProgramFiles_dir h progFiles pResults =
     (let programFiles = QDir progFiles in
      if isAbsolute h programFiles \<and> dirExists h programFiles
      then (case cd h programFiles ''R'' of
              None \<Rightarrow> pResults
            | Some programFiles \<Rightarrow>
                foldl (\<lambda>results rDir.
                         versionsFromRHome h (QDir (absoluteFilePath h programFiles rDir)) results)
                  pResults (entryList h programFiles))
      else pResults)"

text \<open>\<^verbatim>\<open>QStringList::removeDuplicates\<close> keeps the first of equal entries.\<close>

definition removeDuplicates :: "QString list \<Rightarrow> QString list" where
  "removeDuplicates xs = rev (remdups (rev xs))"

definition enumProgramFiles :: "host \<Rightarrow> RVersion list \<Rightarrow> RVersion list" where
  "enumProgramFiles h pResults =
     (let progFiles = [getenv h ''ProgramFiles'', getenv h ''ProgramW6432'',
                       getenv h ''ProgramFiles(x86)''];
          progFiles = removeAll [] progFiles;
          progFiles = removeDuplicates progFiles
      in foldl (\<lambda>results dir. enumProgramFiles_dir h dir results) pResults progFiles)"

definition KEY_READ :: DWORD where
  "KEY_READ = 0x20019"

definition KEY_WOW64_32KEY :: DWORD where
  "KEY_WOW64_32KEY = 0x0200"

definition KEY_WOW64_64KEY :: DWORD where
  "KEY_WOW64_64KEY = 0x0100"

text \<open>The key \<^verbatim>\<open>"Software\\R-core\\R"\<close> (character 92 is the backslash).\<close>

definition R_core_key :: string where
  "R_core_key = ''Software'' @ [char_of (92::nat)] @ ''R-core'' @ [char_of (92::nat)] @ ''R''"

text \<open>
  The \<^verbatim>\<open>switch\<close> on the architecture that both registry functions start with:
  \<open>None\<close> is its \<^verbatim>\<open>default: return\<close>.
\<close>

definition registryView :: "Architecture \<Rightarrow> DWORD option" where
  "registryView a =
     (case a of ArchX86 \<Rightarrow> Some KEY_WOW64_32KEY
              | ArchX64 \<Rightarrow> Some KEY_WOW64_64KEY
              | _ \<Rightarrow> None)"

text \<open>
  The registry functions write to the error log with \<^verbatim>\<open>LOG_ERROR\<close>. Their models
  return the lines they log beside their result. The log is never read by the
  program, so the functions that call them keep the result only.

  The loop of \<^verbatim>\<open>enumRegistry\<close> over the names of the subkeys:
\<close>

fun enumRegistry_keys ::
  "host \<Rightarrow> HKEY \<Rightarrow> DWORD \<Rightarrow> string list \<Rightarrow> RVersion list \<times> Error list
     \<Rightarrow> RVersion list \<times> Error list" where
  "enumRegistry_keys h regKey flags [] acc = acc"
| "enumRegistry_keys h regKey flags (k # keys) (pResults, log) =
     (case regOpen h regKey k (KEY_READ OR flags) of
        Inl error \<Rightarrow> enumRegistry_keys h regKey flags keys (pResults, log @ [error])
      | Inr verKey \<Rightarrow>
          (let installPath = getStringValue h verKey ''InstallPath'' [] in
           if installPath \<noteq> []
           then enumRegistry_keys h regKey flags keys
                  (versionsFromRHome h (QDir installPath) pResults, log)
           else enumRegistry_keys h regKey flags keys (pResults, log)))"

definition enumRegistry_arch ::
  "host \<Rightarrow> Architecture \<Rightarrow> HKEY \<Rightarrow> RVersion list \<Rightarrow> RVersion list \<times> Error list" where
  "enumRegistry_arch h a key pResults =
     (case registryView a of
        None \<Rightarrow> (pResults, [])
      | Some flags \<Rightarrow>
          (case regOpen h key R_core_key (KEY_READ OR flags) of
             Inl error \<Rightarrow>
               (pResults, if error \<noteq> no_such_file_or_directory then [error] else [])
           | Inr regKey \<Rightarrow>
               enumRegistry_keys h regKey flags (keyNames h regKey) (pResults, [])))"

definition enumRegistry :: "host \<Rightarrow> RVersion list \<Rightarrow> RVersion list \<times> Error list" where
  "enumRegistry h pResults =
     (let (r1, log1) = enumRegistry_arch h ArchX64 HKEY_CURRENT_USER pResults;
          (r2, log2) = enumRegistry_arch h ArchX64 HKEY_LOCAL_MACHINE r1
      in (r2, log1 @ log2))"

text \<open>
  \<^verbatim>\<open>enumConda\<close>, compiled under \<^verbatim>\<open>CONDA_BUILD\<close> only. \<^verbatim>\<open>getenv\<close> here is the C
  function: \<^verbatim>\<open>NULL\<close> when the variable is not set.
\<close>

definition enumConda :: "host \<Rightarrow> RVersion list \<Rightarrow> RVersion list" where
  "enumConda h pResults =
     foldl (\<lambda>results (pfx, pfx2).
              let results = (case environ h ''CONDA_PREFIX'' of
                               None \<Rightarrow> results
                             | Some conda_prefix \<Rightarrow>
                                 versionsFromRHome h (QDir (conda_prefix @ pfx)) results);
                  executable_path = QDir (absolutePath h (QDir (applicationFilePath h @ pfx2)))
              in if dirExists h executable_path
                 then versionsFromRHome h executable_path results
                 else results)
       pResults [(''/lib/R'', ''/../../../lib/R''), (''/R'', ''/../../../R'')]"

section \<open>All versions: filter, sort, de-duplicate\<close>

text \<open>
  \<^verbatim>\<open>qSort\<close> is Qt's; it sorts with \<^verbatim>\<open>operator<\<close>. The model is insertion sort
  with that comparison; what is proved about the sorted list below does not depend
  on the algorithm.
\<close>

fun qSort_insert :: "host \<Rightarrow> RVersion \<Rightarrow> RVersion list \<Rightarrow> RVersion list" where
  "qSort_insert h v [] = [v]"
| "qSort_insert h v (x # xs) =
     (if RVersion_less h x v then x # qSort_insert h v xs else v # x # xs)"

definition qSort :: "host \<Rightarrow> RVersion list \<Rightarrow> RVersion list" where
  "qSort h versions = foldr (qSort_insert h) versions []"

text \<open>
  The loop \<^verbatim>\<open>for (i = 1; ...) if (versions.at(i) == versions.at(i-1)) versions.removeAt(i--)\<close>:
  an entry equal to the one kept before it is removed.
\<close>

fun deduplicate :: "RVersion list \<Rightarrow> RVersion list" where
  "deduplicate [] = []"
| "deduplicate [x] = [x]"
| "deduplicate (x # y # xs) =
     (if RVersion_equals y x then deduplicate (x # xs) else x # deduplicate (y # xs))"

text \<open>
  \<^verbatim>\<open>allRVersions\<close> in its two halves: the candidates it collects (the versions
  passed in, then those of \<^verbatim>\<open>R_HOME\<close>, of conda, of the registry and of the program
  files directories), and its passes over them: remove the invalid versions, sort,
  de-duplicate, remove the unsupported architectures.
\<close>

definition allRVersions_passes :: "host \<Rightarrow> RVersion list \<Rightarrow> RVersion list" where
  "allRVersions_passes h versions =
     (let versions = filter (isValid h) versions;
          versions = deduplicate (qSort h versions)
      in filter (\<lambda>v. architecture v = ArchX64) versions)"

definition allRVersions_candidates :: "host \<Rightarrow> RVersion list \<Rightarrow> RVersion list" where
  "allRVersions_candidates h versions =
     (let versions = versionsFromRHome h (QDir (getenv h ''R_HOME'')) versions;
          versions = (if CONDA_BUILD h then enumConda h versions else versions);
          versions = fst (enumRegistry h versions)
      in enumProgramFiles h versions)"

definition allRVersions :: "host \<Rightarrow> RVersion list \<Rightarrow> RVersion list" where
  "allRVersions h versions = allRVersions_passes h (allRVersions_candidates h versions)"

section \<open>Automatic detection\<close>

definition detectPreferredFromRegistry ::
  "host \<Rightarrow> HKEY \<Rightarrow> Architecture \<Rightarrow> RVersion \<times> Error list" where
  "detectPreferredFromRegistry h key a =
     (case registryView a of
        None \<Rightarrow> (RVersion h [], [])
      | Some flags \<Rightarrow>
          (case regOpen h key R_core_key (KEY_READ OR flags) of
             Inl error \<Rightarrow>
               (RVersion h [], if error \<noteq> no_such_file_or_directory then [error] else [])
           | Inr regKey \<Rightarrow>
               (let versions =
                      versionsFromRHome h (QDir (getStringValue h regKey ''InstallPath'' [])) []
                in (case find (\<lambda>v. isValid h v \<and> architecture v = a) versions of
                      Some v \<Rightarrow> v
                    | None \<Rightarrow> RVersion h [], []))))"

text \<open>
  \<^verbatim>\<open>autoDetect(Architecture, bool preferredOnly)\<close>; the registry block is compiled
  unless \<^verbatim>\<open>CONDA_BUILD\<close> is defined.
\<close>

definition autoDetect :: "host \<Rightarrow> Architecture \<Rightarrow> bool \<Rightarrow> RVersion" where
  "autoDetect h a preferredOnly =
     (let preferred = fst (detectPreferredFromRegistry h HKEY_CURRENT_USER a);
          preferred = (if \<not> isValid h preferred
                       then fst (detectPreferredFromRegistry h HKEY_LOCAL_MACHINE a)
                       else preferred)
      in if \<not> CONDA_BUILD h \<and> isValid h preferred then preferred
         else if preferredOnly then RVersion h []
         else (case find (\<lambda>v. architecture v = a) (allRVersions h []) of
                 Some v \<Rightarrow> v
               | None \<Rightarrow> RVersion h []))"

section \<open>Choosing the version to use\<close>

text \<open>
  \<^verbatim>\<open>detectRVersion\<close> reads and writes two options (\<^verbatim>\<open>rBinDir\<close> and
  \<^verbatim>\<open>desktopRenderingEngine\<close>) and shows dialogs. The state it works on holds the two
  options, the answers still to come from the user, and the dialogs shown so far.

  An answer is what one run of the \<^verbatim>\<open>ChooseRHome\<close> dialog (not among the sources)
  returns, as a function of what the dialog is given: the list of versions, the
  current version and the rendering engine. \<^verbatim>\<open>Accepted v e\<close> is
  \<^verbatim>\<open>dialog.exec() == QDialog::Accepted\<close> with \<^verbatim>\<open>dialog.version()\<close> \<open>v\<close> and
  \<^verbatim>\<open>dialog.renderingEngine()\<close> \<open>e\<close>. With no answer left the dialog never returns,
  and neither does \<^verbatim>\<open>detectRVersion\<close>: its value is \<open>None\<close>.
\<close>

datatype DialogResult = Accepted RVersion QString | Rejected

datatype Dialog = ChooseRHome | RenderingEngineChanged

record session =
  rBinDir :: QString
  desktopRenderingEngine :: QString
  answers :: "(RVersion list \<Rightarrow> RVersion \<Rightarrow> QString \<Rightarrow> DialogResult) list"
  shown :: "Dialog list"

text \<open>
  With \<open>forceUi\<close> false the code returns the current version when that is not empty
  and valid, and the autodetected version when the current one is empty and the
  autodetected one valid; every other path reaches the dialog.
\<close>

function detectRVersion :: "host \<Rightarrow> bool \<Rightarrow> session \<Rightarrow> (RVersion \<times> session) option" where
  "detectRVersion h forceUi s =
     (let rCurrentVersion = RVersion h (rBinDir s);
          rVersion = (if \<not> isEmpty rCurrentVersion \<and> architecture rCurrentVersion = ArchX64
                      then rCurrentVersion else RVersion h []);
          autoDetected = autoDetect h ArchX64 False
      in if \<not> forceUi \<and> \<not> isEmpty rVersion \<and> isValid h rVersion then Some (rVersion, s)
         else if \<not> forceUi \<and> isEmpty rVersion \<and> isValid h autoDetected
         then Some (autoDetected, s)
         else (case answers s of
                 [] \<Rightarrow> None
               | dialog # rest \<Rightarrow>
                   (let renderingEngine = desktopRenderingEngine s;
                        s1 = s\<lparr>answers := rest, shown := shown s @ [ChooseRHome]\<rparr>
                    in case dialog (allRVersions h [rVersion]) rVersion renderingEngine of
                         Rejected \<Rightarrow> Some (RVersion h [], s1)
                       | Accepted chosen engine \<Rightarrow>
                           (let s2 = s1\<lparr>rBinDir := binDir chosen,
                                        desktopRenderingEngine := engine\<rparr>
                            in if renderingEngine \<noteq> engine
                               then Some (RVersion h [],
                                          s2\<lparr>shown := shown s2 @ [RenderingEngineChanged]\<rparr>)
                               else detectRVersion h False s2))))"
  by pat_completeness auto
termination
  by (relation "measure (\<lambda>(h, forceUi, s). length (answers s))") auto

declare detectRVersion.simps [simp del]

text \<open>
  Two parts of \<^verbatim>\<open>detectRVersion\<close> by name: the value of its local \<^verbatim>\<open>rVersion\<close>
  when the dialog is reached (the current version, unless that is empty or not
  64-bit), and the condition under which the dialog is reached.
\<close>

definition tentative :: "host \<Rightarrow> session \<Rightarrow> RVersion" where
  "tentative h s =
     (let rCurrentVersion = RVersion h (rBinDir s)
      in if \<not> isEmpty rCurrentVersion \<and> architecture rCurrentVersion = ArchX64
         then rCurrentVersion else RVersion h [])"

definition reachesDialog :: "host \<Rightarrow> bool \<Rightarrow> session \<Rightarrow> bool" where
  "reachesDialog h forceUi s =
     (forceUi \<or>
      (if isEmpty (tentative h s) then \<not> isValid h (autoDetect h ArchX64 False)
       else \<not> isValid h (tentative h s)))"

section \<open>The header reader as the specification words it\<close>

text \<open>
  The specification of the header reader, on the bytes of a file: a little-endian
  32-bit header offset at byte \<open>0x3C\<close>, a little-endian 32-bit signature at that
  offset, \<open>None\<close> unless the signature is \<open>0x00004550\<close>, and then the little-endian
  16-bit machine type that follows, mapped to an architecture. \<open>le_value\<close> is the
  number that a little-endian byte sequence denotes.
\<close>

fun le_value :: "byte list \<Rightarrow> nat" where
  "le_value [] = 0"
| "le_value (b # bs) = unat b + 256 * le_value bs"

definition headerArch :: "byte list \<Rightarrow> Architecture" where
  "headerArch bs =
     (let headerOffset = le_value (take 4 (drop 0x3C bs));
          signature = le_value (take 4 (drop headerOffset bs));
          machineType = le_value (take 2 (drop (headerOffset + 4) bs))
      in if signature \<noteq> 0x00004550 then ArchNone
         else if machineType = 0x014C then ArchX86
         else if machineType = 0x8664 then ArchX64
         else ArchUnknown)"

section \<open>Example machines\<close>

text \<open>
  Concrete machines on which the theorems below are exercised. A machine is given
  by its working directory, its \<^verbatim>\<open>R.dll\<close> files (the directory of each, its version
  resource and its bytes), the \<^verbatim>\<open>InstallPath\<close> values of the registry roots that
  have the R key, and its environment. Paths use \<^verbatim>\<open>/\<close> and a drive letter.

  \<^item> \<open>ExA\<close>: R 4.2 (64-bit and 32-bit) under the program files directory and
    registered machine-wide, an old 64-bit R 2.15 that is not registered, and a
    directory whose \<^verbatim>\<open>R.dll\<close> is ten bytes long.
  \<^item> \<open>ExB\<close>: three 64-bit installations of different versions; the directories of
    the first and the third differ in letter case only.
  \<^item> \<open>ExC\<close>: one installation, which is the working directory; nothing registered,
    no environment.
  \<^item> \<open>ExD\<close>: two 64-bit installations, one with a major version of \<open>0x8005\<close>.
  \<^item> \<open>ExE\<close>: as \<open>ExB\<close>, but the two directories that differ in case only hold the
    same version, as two spellings of one directory do.
  \<^item> \<open>ExF\<close>: one installation, a 32-bit R 3.6; nothing registered, no environment.
\<close>

datatype example = ExA | ExB | ExC | ExD | ExE | ExF

text \<open>A minimal image: the header offset \<open>0x40\<close> at \<open>0x3C\<close>, then \<^verbatim>\<open>PE\0\0\<close> and the machine type.\<close>

definition peImage :: "byte list \<Rightarrow> byte list" where
  "peImage machine = replicate 60 0 @ [0x40, 0, 0, 0] @ [0x50, 0x45, 0, 0] @ machine"

fun workingDirectory :: "example \<Rightarrow> QString" where
  "workingDirectory ExC = ''C:/R/R-3.5.1''"
| "workingDirectory m = ''C:/Users/me''"

fun installed :: "example \<Rightarrow> (QString \<times> DWORD \<times> byte list) list" where
  "installed ExA =
     [(''C:/Program Files/R/R-4.2.0/bin/x64'', 0x00040002, peImage [0x64, 0x86]),
      (''C:/Program Files/R/R-4.2.0/bin/i386'', 0x00040002, peImage [0x4c, 0x01]),
      (''C:/old/R-2.15/bin/x64'', 0x0002000F, peImage [0x64, 0x86]),
      (''C:/broken/bin/x64'', 0x00040002, replicate 10 0)]"
| "installed ExB =
     [(''C:/R/bin/x64'', 0x00040002, peImage [0x64, 0x86]),
      (''D:/R/bin/x64'', 0x00040001, peImage [0x64, 0x86]),
      (''c:/r/bin/x64'', 0x00040000, peImage [0x64, 0x86])]"
| "installed ExC =
     [(''C:/R/R-3.5.1/bin/x64'', 0x00030005, peImage [0x64, 0x86])]"
| "installed ExD =
     [(''C:/R/R-next/bin/x64'', 0x80050000, peImage [0x64, 0x86]),
      (''C:/R/R-4.0.0/bin/x64'', 0x00040000, peImage [0x64, 0x86])]"
| "installed ExE =
     [(''C:/R/bin/x64'', 0x00040002, peImage [0x64, 0x86]),
      (''D:/R/bin/x64'', 0x00040001, peImage [0x64, 0x86]),
      (''c:/r/bin/x64'', 0x00040002, peImage [0x64, 0x86])]"
| "installed ExF =
     [(''C:/R/R-3.6.3/bin/i386'', 0x00030006, peImage [0x4c, 0x01])]"

fun registered :: "example \<Rightarrow> (HKEY \<times> QString) list" where
  "registered ExA = [(HKEY_LOCAL_MACHINE, ''C:/Program Files/R/R-4.2.0'')]"
| "registered m = []"

fun environment :: "example \<Rightarrow> (string \<times> string) list" where
  "environment ExA = [(''ProgramFiles'', ''C:/Program Files''), (''ProgramW6432'', ''C:/Program Files'')]"
| "environment m = []"

definition isDrivePath :: "QString \<Rightarrow> bool" where
  "isDrivePath p = (case p of d # c # s # _ \<Rightarrow> c = CHR '':'' \<and> s = CHR ''/'' | _ \<Rightarrow> False)"

definition lastSegment :: "QString \<Rightarrow> QString" where
  "lastSegment p = rev (takeWhile (\<lambda>c. c \<noteq> CHR ''/'') (rev p))"

definition parentPath :: "QString \<Rightarrow> QString" where
  "parentPath p = rev (tl (dropWhile (\<lambda>c. c \<noteq> CHR ''/'') (rev p)))"

definition startsWith :: "QString \<Rightarrow> QString \<Rightarrow> bool" where
  "startsWith p q = (take (length q) p = q)"

definition ex_filePath :: "QString \<Rightarrow> QString \<Rightarrow> QString" where
  "ex_filePath p n = p @ ''/'' @ n"

definition ex_cleanPath :: "QString \<Rightarrow> QString" where
  "ex_cleanPath p = (if lastSegment p = ''..'' then parentPath (parentPath p) else p)"

definition ex_absolutePath :: "example \<Rightarrow> QString \<Rightarrow> QString" where
  "ex_absolutePath m p =
     (if isDrivePath p then p
      else if p = ''.'' then workingDirectory m
      else workingDirectory m @ ''/'' @ p)"

definition ex_absoluteFilePath :: "example \<Rightarrow> QString \<Rightarrow> QString \<Rightarrow> QString" where
  "ex_absoluteFilePath m p n = ex_absolutePath m p @ ''/'' @ n"

definition ex_dirExists :: "example \<Rightarrow> QString \<Rightarrow> bool" where
  "ex_dirExists m p =
     list_ex (\<lambda>(b, _). b = ex_absolutePath m p \<or> startsWith b (ex_absolutePath m p @ ''/''))
       (installed m)"

definition ex_cd :: "example \<Rightarrow> QString \<Rightarrow> QString \<Rightarrow> QString option" where
  "ex_cd m p d =
     (let q = (if p = ''.'' then d else p @ ''/'' @ d)
      in if ex_dirExists m q then Some q else None)"

definition ex_entryList :: "example \<Rightarrow> QString \<Rightarrow> QString list" where
  "ex_entryList m p =
     remdups (map (\<lambda>(b, _). takeWhile (\<lambda>c. c \<noteq> CHR ''/'')
                                (drop (length (ex_absolutePath m p) + 1) b))
                (filter (\<lambda>(b, _). startsWith b (ex_absolutePath m p @ ''/'')) (installed m)))"

definition ex_dll :: "example \<Rightarrow> QString \<Rightarrow> (DWORD \<times> byte list) option" where
  "ex_dll m f = map_of (map (\<lambda>(b, x). (b @ ''/R.dll'', x)) (installed m)) f"

definition ex_dirHas :: "example \<Rightarrow> QString \<Rightarrow> QString \<Rightarrow> bool" where
  "ex_dirHas m p n = (ex_dll m (ex_absoluteFilePath m p n) \<noteq> None)"

definition ex_fileExists :: "example \<Rightarrow> QString \<Rightarrow> bool" where
  "ex_fileExists m f = (ex_dll m f \<noteq> None)"

definition ex_fileBytes :: "example \<Rightarrow> QString \<Rightarrow> byte list option" where
  "ex_fileBytes m f = map_option snd (ex_dll m f)"

definition ex_fileVersionMS :: "example \<Rightarrow> QString \<Rightarrow> DWORD option" where
  "ex_fileVersionMS m f = map_option fst (ex_dll m f)"

definition ex_indeterminate :: "QString \<Rightarrow> DWORD \<times> DWORD \<times> WORD" where
  "ex_indeterminate f = (0, 0, 0)"

text \<open>
  The registry of the examples has the R key under the roots listed, in the 64-bit
  view, with an \<^verbatim>\<open>InstallPath\<close> value and no subkeys.
\<close>

definition ex_regOpen :: "example \<Rightarrow> HKEY \<Rightarrow> string \<Rightarrow> DWORD \<Rightarrow> Error + HKEY" where
  "ex_regOpen m key name sam =
     (if name = R_core_key \<and> sam = KEY_READ OR KEY_WOW64_64KEY
      then (case (key, map_of (registered m) key) of
              (HKEY_CURRENT_USER, Some _) \<Rightarrow> Inr (KeyHandle 0)
            | (HKEY_LOCAL_MACHINE, Some _) \<Rightarrow> Inr (KeyHandle 1)
            | _ \<Rightarrow> Inl no_such_file_or_directory)
      else Inl no_such_file_or_directory)"

definition ex_keyNames :: "HKEY \<Rightarrow> string list" where
  "ex_keyNames key = []"

definition ex_getStringValue :: "example \<Rightarrow> HKEY \<Rightarrow> string \<Rightarrow> string \<Rightarrow> string" where
  "ex_getStringValue m key name dflt =
     (if name = ''InstallPath''
      then (case map_of (registered m)
                   (if key = KeyHandle 0 then HKEY_CURRENT_USER else HKEY_LOCAL_MACHINE) of
              Some v \<Rightarrow> v
            | None \<Rightarrow> dflt)
      else dflt)"

definition ex_environ :: "example \<Rightarrow> string \<Rightarrow> string option" where
  "ex_environ m name = map_of (environment m) name"

definition ex_archValue :: "Architecture \<Rightarrow> int" where
  "ex_archValue a = (case a of ArchNone \<Rightarrow> 0 | ArchX86 \<Rightarrow> 1 | ArchX64 \<Rightarrow> 2 | ArchUnknown \<Rightarrow> 3)"

definition exampleHost :: "example \<Rightarrow> host" where
  "exampleHost m =
     \<lparr>isAbsolute = isDrivePath,
      dirName = lastSegment,
      filePath = ex_filePath,
      cleanPath = ex_cleanPath,
      absolutePath = ex_absolutePath m,
      absoluteFilePath = ex_absoluteFilePath m,
      cd = ex_cd m,
      dirExists = ex_dirExists m,
      dirHas = ex_dirHas m,
      entryList = ex_entryList m,
      fileExists = ex_fileExists m,
      fileBytes = ex_fileBytes m,
      fileVersionMS = ex_fileVersionMS m,
      indeterminate = ex_indeterminate,
      regOpen = ex_regOpen m,
      keyNames = ex_keyNames,
      getStringValue = ex_getStringValue m,
      environ = ex_environ m,
      applicationFilePath = ''C:/Program Files/RStudio/bin/rstudio.exe'',
      CONDA_BUILD = False,
      R_MAJOR_VERSION_REQUIRED = 3,
      R_MINOR_VERSION_REQUIRED = 0,
      R_PATCH_VERSION_REQUIRED = 1,
      archValue = ex_archValue\<rparr>"

text \<open>
  A session of the examples: the stored bin directory, the rendering engine
  \<^verbatim>\<open>auto\<close>, and a user whose answers do not depend on what the dialog shows.
\<close>

definition exampleSession :: "QString \<Rightarrow> DialogResult list \<Rightarrow> session" where
  "exampleSession dir results =
     \<lparr>rBinDir = dir, desktopRenderingEngine = ''auto'',
      answers = map (\<lambda>r versions current engine. r) results, shown = []\<rparr>"

definition machineA :: host where
  "machineA = exampleHost ExA"

definition machineB :: host where
  "machineB = exampleHost ExB"

definition machineC :: host where
  "machineC = exampleHost ExC"

definition machineD :: host where
  "machineD = exampleHost ExD"

definition machineE :: host where
  "machineE = exampleHost ExE"


chapter \<open>Properties\<close>

section \<open>Minimum version\<close>

lemma ffff_mask: "(0xffff :: DWORD) = mask 16"
  by (simp add: mask_eq_exp_minus_1)

lemma uint_LOWORD: "uint (LOWORD v) = uint v mod 65536"
  unfolding LOWORD_def ffff_mask take_bit_eq_mask [symmetric]
  by (simp add: unsigned_ucast_eq take_bit_eq_mod uint_mod_distrib uint_div_distrib)

lemma uint_HIWORD: "uint (HIWORD v) = uint v div 65536"
proof -
  have "uint v < 2 ^ 32"
    using uint_lt2p [of v] by simp
  then have "uint v div 65536 < 65536"
    by simp
  moreover have "0 \<le> uint v div 65536"
    by (simp add: div_int_pos_iff)
  ultimately show ?thesis
    unfolding HIWORD_def ffff_mask take_bit_eq_mask [symmetric]
    by (simp add: unsigned_ucast_eq take_bit_eq_mod drop_bit_eq_div
        uint_mod_distrib uint_div_distrib)
qed

text \<open>
  Claim C5. \<^verbatim>\<open>confirmMinVersion\<close> holds exactly when the high 16 bits of the packed
  version exceed the required major, or equal it with the low 16 bits at least the
  required minor. So \<open>0x00040002\<close> is sufficient for major 4 and minor 1, no version
  with major 3 is sufficient for major 4, and major 5 with minor 0 is sufficient
  for major 4 whatever the required minor.
\<close>

theorem confirmMinVersion_iff:
  "confirmMinVersion v major minor =
     (uint v div 65536 > major \<or>
      (uint v div 65536 = major \<and> uint v mod 65536 \<ge> minor))
   \<and> confirmMinVersion 0x00040002 4 1
   \<and> (uint v div 65536 = 3 \<longrightarrow> \<not> confirmMinVersion v 4 minor)
   \<and> confirmMinVersion 0x00050000 4 minor"
  by (auto simp: confirmMinVersion_def Let_def uint_HIWORD uint_LOWORD)

theorem confirmMinVersion_iff_witness:
  "uint (0x0003FFFF :: DWORD) div 65536 = 3 \<and> \<not> confirmMinVersion 0x0003FFFF 4 0"
  using confirmMinVersion_iff [of "0x0003FFFF" 4 0] by simp

section \<open>The header reader\<close>

lemma le_value_bound: "le_value bs < 256 ^ length bs"
proof (induction bs)
  case Nil
  show ?case by simp
next
  case (Cons b bs)
  have "unat b < 256"
    using unsigned_less [of b, where 'a = nat] by simp
  with Cons show ?case by simp
qed

lemma le_word_of_nat: "le_word bs = of_nat (le_value bs)"
  by (induction bs) simp_all

lemma le_value_4: "length bs = 4 \<Longrightarrow> unat (of_nat (le_value bs) :: DWORD) = le_value bs"
  using le_value_bound [of bs] by (simp add: unat_of_nat)

lemma le_value_2: "length bs = 2 \<Longrightarrow> unat (of_nat (le_value bs) :: WORD) = le_value bs"
  using le_value_bound [of bs] by (simp add: unat_of_nat)

lemma read_uint32_ok:
  assumes "good s" "gpos s + 4 \<le> length (content s)"
  shows "read_uint32 j s =
           (of_nat (le_value (take 4 (drop (gpos s) (content s)))), s\<lparr>gpos := gpos s + 4\<rparr>)"
  using assms by (simp add: read_uint32_def stream_read_def le_word_of_nat)

lemma read_uint32_fail:
  assumes "\<not> (good s \<and> gpos s + 4 \<le> length (content s))"
  shows "read_uint32 j s = (j, s\<lparr>good := False\<rparr>)"
  using assms by (auto simp: read_uint32_def stream_read_def)

lemma read_uint16_ok:
  assumes "good s" "gpos s + 2 \<le> length (content s)"
  shows "read_uint16 j s =
           (of_nat (le_value (take 2 (drop (gpos s) (content s)))), s\<lparr>gpos := gpos s + 2\<rparr>)"
  using assms by (simp add: read_uint16_def stream_read_def le_word_of_nat)

lemma read_uint16_fail:
  assumes "\<not> (good s \<and> gpos s + 2 \<le> length (content s))"
  shows "read_uint16 j s = (j, s\<lparr>good := False\<rparr>)"
  using assms by (auto simp: read_uint16_def stream_read_def)

text \<open>A stream that failed to open: whatever the uninitialised values are.\<close>

lemma getArch_stream_bad:
  assumes "\<not> good s"
  shows "getArch_stream junk s = ArchNone"
  using assms
  by (cases junk)
    (simp add: getArch_stream_def seekg_def read_uint32_fail read_uint16_fail Let_def)

text \<open>A file that ends before the header offset is complete.\<close>

lemma getArch_stream_short1:
  assumes "good s" "gpos s = 0" "length (content s) < 0x40"
  shows "getArch_stream junk s = ArchNone"
  using assms
  by (cases junk)
    (simp add: getArch_stream_def seekg_def read_uint32_fail read_uint16_fail Let_def)

text \<open>A file that ends before the signature and the machine type are complete.\<close>

lemma getArch_stream_short2:
  assumes "good s" "gpos s = 0" "0x40 \<le> length (content s)"
    "length (content s) < le_value (take 4 (drop 0x3C (content s))) + 6"
  shows "getArch_stream junk s = ArchNone"
proof -
  obtain j1 j2 j3 where junk: "junk = (j1, j2, j3)"
    by (cases junk)
  let ?off = "le_value (take 4 (drop 0x3C (content s)))"
  have off: "unat (of_nat ?off :: DWORD) = ?off"
    using assms(3) by (intro le_value_4) simp
  show ?thesis
  proof (cases "?off + 4 \<le> length (content s)")
    case True
    with assms off show ?thesis
      by (simp add: junk getArch_stream_def seekg_def read_uint32_ok read_uint16_fail Let_def)
  next
    case False
    with assms off show ?thesis
      by (simp add: junk getArch_stream_def seekg_def read_uint32_ok read_uint32_fail
          read_uint16_fail Let_def)
  qed
qed

text \<open>A file that holds the three fields.\<close>

lemma getArch_stream_full:
  assumes "good s" "gpos s = 0" "0x40 \<le> length (content s)"
    "le_value (take 4 (drop 0x3C (content s))) + 6 \<le> length (content s)"
  shows "getArch_stream junk s = headerArch (content s)"
proof -
  obtain j1 j2 j3 where junk: "junk = (j1, j2, j3)"
    by (cases junk)
  let ?bs = "content s"
  let ?off = "le_value (take 4 (drop 0x3C ?bs))"
  let ?sig = "le_value (take 4 (drop ?off ?bs))"
  let ?mt = "le_value (take 2 (drop (?off + 4) ?bs))"
  have off: "unat (of_nat ?off :: DWORD) = ?off"
    using assms(3) by (intro le_value_4) simp
  have sig: "unat (of_nat ?sig :: DWORD) = ?sig"
    using assms(4) by (intro le_value_4) simp
  have mt: "unat (of_nat ?mt :: WORD) = ?mt"
    using assms(4) by (intro le_value_2) simp
  have sig_eq: "(of_nat ?sig = (0x4550 :: DWORD)) = (?sig = 0x4550)"
    using sig by (simp add: word_unat_eq_iff)
  have mt_eq: "(of_nat ?mt = (w :: WORD)) = (?mt = unat w)" for w
    using mt by (auto simp: word_unat_eq_iff)
  from assms off show ?thesis
    by (simp add: junk getArch_stream_def seekg_def read_uint32_ok read_uint16_ok Let_def
        headerArch_def sig_eq mt_eq IMAGE_FILE_MACHINE_I386_def IMAGE_FILE_MACHINE_AMD64_def)
qed

lemma ifstream_open_Some:
  "fileBytes h path = Some bs \<Longrightarrow>
     ifstream_open h path = \<lparr>content = bs, gpos = 0, good = True\<rparr>"
  by (simp add: ifstream_open_def)

text \<open>
  Claim C6. For an existing file that holds the three fields, \<^verbatim>\<open>getArch\<close> is the
  header reader of the specification: the offset at \<open>0x3C\<close>, the signature there,
  \<open>None\<close> unless it is \<open>0x00004550\<close>, and the machine type after it mapped to
  \<open>X86\<close>, \<open>X64\<close> or \<open>Unknown\<close>. A file that is missing or cannot be opened gives
  \<open>None\<close>.
\<close>

theorem getArch_reads_header:
  "(fileExists h path \<and> fileBytes h path = Some bs \<and> 0x40 \<le> length bs
      \<and> le_value (take 4 (drop 0x3C bs)) + 6 \<le> length bs
     \<longrightarrow> getArch h path = headerArch bs)
   \<and> (\<not> fileExists h path \<or> fileBytes h path = None \<longrightarrow> getArch h path = ArchNone)"
proof (intro conjI impI)
  assume a: "fileExists h path \<and> fileBytes h path = Some bs \<and> 0x40 \<le> length bs
      \<and> le_value (take 4 (drop 0x3C bs)) + 6 \<le> length bs"
  then have "getArch_stream (indeterminate h path) (ifstream_open h path)
               = headerArch (content (ifstream_open h path))"
    by (intro getArch_stream_full) (simp_all add: ifstream_open_Some)
  with a show "getArch h path = headerArch bs"
    by (simp add: getArch_def ifstream_open_Some)
next
  assume "\<not> fileExists h path \<or> fileBytes h path = None"
  then show "getArch h path = ArchNone"
    by (auto simp: getArch_def ifstream_open_def getArch_stream_bad)
qed

theorem getArch_reads_header_witness:
  "fileExists machineA ''C:/Program Files/R/R-4.2.0/bin/x64/R.dll''
   \<and> fileBytes machineA ''C:/Program Files/R/R-4.2.0/bin/x64/R.dll'' = Some (peImage [0x64, 0x86])
   \<and> 0x40 \<le> length (peImage [0x64, 0x86])
   \<and> le_value (take 4 (drop 0x3C (peImage [0x64, 0x86]))) + 6 \<le> length (peImage [0x64, 0x86])
   \<and> getArch machineA ''C:/Program Files/R/R-4.2.0/bin/x64/R.dll'' = ArchX64
   \<and> \<not> fileExists machineA ''C:/R/R-3.6.3/bin/x64/R.dll''
   \<and> getArch machineA ''C:/R/R-3.6.3/bin/x64/R.dll'' = ArchNone"
proof -
  let ?p = "''C:/Program Files/R/R-4.2.0/bin/x64/R.dll''" and ?q = "''C:/R/R-3.6.3/bin/x64/R.dll''"
  have pre: "fileExists machineA ?p \<and> fileBytes machineA ?p = Some (peImage [0x64, 0x86])
      \<and> 0x40 \<le> length (peImage [0x64, 0x86])
      \<and> le_value (take 4 (drop 0x3C (peImage [0x64, 0x86]))) + 6 \<le> length (peImage [0x64, 0x86])"
    by (intro conjI) (code_simp, code_simp, simp_all add: peImage_def)
  have spec: "headerArch (peImage [0x64, 0x86]) = ArchX64"
    by (simp add: headerArch_def peImage_def)
  have missing: "\<not> fileExists machineA ?q"
    by code_simp
  from getArch_reads_header [of machineA ?p "peImage [0x64, 0x86]"] pre spec
  have "getArch machineA ?p = ArchX64"
    by simp
  moreover from getArch_reads_header [of machineA ?q] missing
  have "getArch machineA ?q = ArchNone"
    by simp
  ultimately show ?thesis
    using pre missing by simp
qed

text \<open>
  Claim C7. A file shorter than the header fields the reader needs (it ends before
  byte \<open>0x40\<close>, or before the six bytes at the header offset) gives \<open>None\<close>, the
  value a missing file gives, whatever the uninitialised locals of the reads hold.
  The result is an \<open>Architecture\<close>: there is no other way to signal an error.
\<close>

theorem getArch_truncated:
  "fileBytes h path = Some bs \<Longrightarrow>
   length bs < 0x40 \<or> length bs < le_value (take 4 (drop 0x3C bs)) + 6 \<Longrightarrow>
   getArch h path = ArchNone \<and> (\<not> fileExists h other \<longrightarrow> getArch h other = getArch h path)"
proof -
  assume bytes: "fileBytes h path = Some bs"
    and short: "length bs < 0x40 \<or> length bs < le_value (take 4 (drop 0x3C bs)) + 6"
  let ?s = "ifstream_open h path"
  have s: "good ?s" "gpos ?s = 0" "content ?s = bs"
    using bytes by (simp_all add: ifstream_open_Some)
  have "getArch_stream (indeterminate h path) ?s = ArchNone"
  proof (cases "length bs < 0x40")
    case True
    with s show ?thesis
      by (intro getArch_stream_short1) simp_all
  next
    case False
    with s short show ?thesis
      by (intro getArch_stream_short2) simp_all
  qed
  then have "getArch h path = ArchNone"
    by (simp add: getArch_def)
  then show ?thesis
    by (simp add: getArch_def)
qed

theorem getArch_truncated_witness:
  "fileBytes machineA ''C:/broken/bin/x64/R.dll'' = Some (replicate 10 0)
   \<and> length (replicate 10 (0 :: byte)) < 0x40
   \<and> getArch machineA ''C:/broken/bin/x64/R.dll'' = ArchNone
   \<and> \<not> fileExists machineA ''C:/R/R-3.6.3/bin/x64/R.dll''
   \<and> getArch machineA ''C:/R/R-3.6.3/bin/x64/R.dll'' = ArchNone"
proof -
  let ?p = "''C:/broken/bin/x64/R.dll''" and ?q = "''C:/R/R-3.6.3/bin/x64/R.dll''"
  have bytes: "fileBytes machineA ?p = Some (replicate 10 0)"
    by code_simp
  have short: "length (replicate 10 (0 :: byte)) < 0x40"
    by simp
  have missing: "\<not> fileExists machineA ?q"
    by code_simp
  from getArch_truncated [of machineA ?p "replicate 10 0" ?q] bytes short missing
  show ?thesis
    by simp
qed

section \<open>Installation records\<close>

lemma binDir_RVersion: "binDir (RVersion h d) = d"
  by (simp add: RVersion_def Let_def)

lemma isEmpty_RVersion: "isEmpty (RVersion h d) = (d = [])"
  by (simp add: isEmpty_def binDir_RVersion)

lemma empty_not_valid: "\<not> isValid h (RVersion h [])"
  by (simp add: isValid_def validate_def isEmpty_RVersion)

lemma homeDir_empty_invalid: "homeDir v = [] \<Longrightarrow> validate h v = ValidateNotFound"
  by (simp add: validate_def)

text \<open>
  Claim C10. A record constructed from a non-empty directory that is not absolute,
  or from a directory such that neither its last segment nor that of its parent is
  named \<^verbatim>\<open>bin\<close>, has an empty home directory, and \<^verbatim>\<open>validate\<close> answers
  \<^verbatim>\<open>ValidateNotFound\<close>. Whatever produced a record, on whatever machine: if its
  home directory is empty it is not valid.
\<close>

theorem no_home_no_validity:
  "(dir \<noteq> [] \<and> \<not> isAbsolute h dir
      \<longrightarrow> homeDir (RVersion h dir) = [] \<and> validate h (RVersion h dir) = ValidateNotFound)
   \<and> (dirName h dir \<noteq> ''bin'' \<and> dirName h (cleanPath h (filePath h dir ''..'')) \<noteq> ''bin''
      \<longrightarrow> homeDir (RVersion h dir) = [] \<and> validate h (RVersion h dir) = ValidateNotFound)
   \<and> (homeDir v = [] \<longrightarrow> validate h v = ValidateNotFound \<and> \<not> isValid h v)"
proof -
  have home: "homeDir (RVersion h d) = binDirToHomeDir h d" for d
    by (simp add: RVersion_def Let_def)
  have 1: "binDirToHomeDir h dir = []" if "dir \<noteq> []" "\<not> isAbsolute h dir"
    using that by (simp add: binDirToHomeDir_def QDir_def)
  have 2: "binDirToHomeDir h dir = []"
    if "dirName h dir \<noteq> ''bin''" "dirName h (cleanPath h (filePath h dir ''..'')) \<noteq> ''bin''"
    using that by (simp add: binDirToHomeDir_def QDir_def Let_def)
  show ?thesis
    using 1 2 by (auto simp: home homeDir_empty_invalid isValid_def)
qed

theorem no_home_no_validity_witness:
  "''R/bin'' \<noteq> [] \<and> \<not> isAbsolute machineA ''R/bin''
   \<and> homeDir (RVersion machineA ''R/bin'') = []
   \<and> validate machineA (RVersion machineA ''R/bin'') = ValidateNotFound
   \<and> dirName machineA ''C:/Program Files/R/R-4.2.0/library'' \<noteq> ''bin''
   \<and> dirName machineA (cleanPath machineA (filePath machineA ''C:/Program Files/R/R-4.2.0/library'' ''..'')) \<noteq> ''bin''
   \<and> homeDir (RVersion machineA ''C:/Program Files/R/R-4.2.0/library'') = []
   \<and> validate machineA (RVersion machineA ''C:/Program Files/R/R-4.2.0/library'') = ValidateNotFound
   \<and> homeDir (RVersion machineA []) = []
   \<and> \<not> isValid machineA (RVersion machineA [])"
proof -
  have a: "''R/bin'' \<noteq> [] \<and> \<not> isAbsolute machineA ''R/bin''"
    by code_simp
  have b: "dirName machineA ''C:/Program Files/R/R-4.2.0/library'' \<noteq> ''bin''
      \<and> dirName machineA (cleanPath machineA (filePath machineA ''C:/Program Files/R/R-4.2.0/library'' ''..'')) \<noteq> ''bin''"
    by code_simp
  have c: "homeDir (RVersion machineA []) = []"
    by code_simp
  from no_home_no_validity [of "''R/bin''" machineA "RVersion machineA []"] a c
  have 1: "homeDir (RVersion machineA ''R/bin'') = []
      \<and> validate machineA (RVersion machineA ''R/bin'') = ValidateNotFound
      \<and> \<not> isValid machineA (RVersion machineA [])"
    by blast
  from no_home_no_validity [of "''C:/Program Files/R/R-4.2.0/library''" machineA "RVersion machineA []"] b
  have 2: "homeDir (RVersion machineA ''C:/Program Files/R/R-4.2.0/library'') = []
      \<and> validate machineA (RVersion machineA ''C:/Program Files/R/R-4.2.0/library'') = ValidateNotFound"
    by blast
  from a b c 1 2 show ?thesis
    by blast
qed


section \<open>The comparator\<close>

text \<open>
  \<^verbatim>\<open>compareTo\<close> is zero exactly on equal keys. Where both versions are below
  \<open>2\<^sup>3\<^sup>1\<close> the signed subtraction is exact, and \<^verbatim>\<open>compareTo\<close> is negative exactly
  when the key of the first record is the smaller one: there it is the strict total
  order of the keys.
\<close>

lemma QString_compare_eq_0: "QString_compare x y = 0 \<longleftrightarrow> map foldCase x = map foldCase y"
  by (induction x y rule: QString_compare.induct) auto

lemma QString_compare_less: "QString_compare x y < 0 \<longleftrightarrow> map foldCase x < map foldCase y"
  by (induction x y rule: QString_compare.induct) auto

lemma signed_31: "- 2147483648 \<le> k \<Longrightarrow> k < 2147483648 \<Longrightarrow> signed_take_bit 31 k = (k :: int)"
  using signed_take_bit_int_eq_self [of 31 k] by simp

lemma sint_small:
  assumes "uint (v :: DWORD) < 2147483648"
  shows "sint v = uint v"
proof -
  have "- 2147483648 \<le> uint v"
    using uint_ge_0 [of v] by linarith
  with assms show ?thesis
    by (simp add: sint_uint signed_31)
qed

lemma version_difference:
  assumes "uint (v :: DWORD) < 2147483648" "uint (w :: DWORD) < 2147483648"
  shows "sint (- (v - w)) = uint w - uint v"
proof -
  have "sint (w - v) = signed_take_bit 31 (sint w - sint v)"
    by (simp add: sint_word_ariths)
  moreover have "- 2147483648 \<le> uint w - uint v" "uint w - uint v < 2147483648"
    using assms uint_ge_0 [of v] uint_ge_0 [of w] by linarith+
  ultimately show ?thesis
    using assms by (simp add: sint_small signed_31)
qed

lemma compareTo_eq_0: "compareTo h a b = 0 \<longleftrightarrow> sortKey h a = sortKey h b"
proof -
  have "sint (- (version a - version b)) = 0 \<longleftrightarrow> version a = version b"
    by (metis add.inverse_neutral diff_eq_diff_eq diff_zero neg_equal_iff_equal signed_eq_0_iff
        right_minus_eq)
  then show ?thesis
    by (auto simp: compareTo_def Let_def sortKey_def QString_compare_eq_0 word_uint_eq_iff
        simp del: minus_diff_eq)
qed

lemma compareTo_less:
  assumes "uint (version a) < 2147483648" "uint (version b) < 2147483648"
  shows "compareTo h a b < 0 \<longleftrightarrow> sortKey h a < sortKey h b"
proof -
  have d: "sint (- (version a - version b)) = uint (version b) - uint (version a)"
    using assms by (intro version_difference)
  have e: "uint (version a) = uint (version b) \<longleftrightarrow> version a = version b"
    by (simp add: word_uint_eq_iff)
  show ?thesis
    unfolding compareTo_def Let_def d sortKey_def
    by (auto simp: QString_compare_eq_0 QString_compare_less e)
qed


text \<open>
  Claim C4, at an input where the code departs from it. An \<^verbatim>\<open>R.dll\<close> whose version
  resource has the major version \<open>0x8005\<close> is valid and its packed version is the
  greater one, yet \<^verbatim>\<open>compareTo\<close> is positive: the cast to \<^verbatim>\<open>int\<close> makes the version
  negative (the subtraction itself does not overflow here), and the greater
  version sorts last.
\<close>

theorem compareTo_large_version:
  "isValid machineD (RVersion machineD ''C:/R/R-next/bin/x64'')
   \<and> isValid machineD (RVersion machineD ''C:/R/R-4.0.0/bin/x64'')
   \<and> version (RVersion machineD ''C:/R/R-next/bin/x64'') = 0x80050000
   \<and> version (RVersion machineD ''C:/R/R-4.0.0/bin/x64'') = 0x00040000
   \<and> uint (0x00040000 :: DWORD) < uint (0x80050000 :: DWORD)
   \<and> compareTo machineD (RVersion machineD ''C:/R/R-next/bin/x64'')
        (RVersion machineD ''C:/R/R-4.0.0/bin/x64'') = 2147418112
   \<and> \<not> RVersion_less machineD (RVersion machineD ''C:/R/R-next/bin/x64'')
        (RVersion machineD ''C:/R/R-4.0.0/bin/x64'')
   \<and> RVersion_less machineD (RVersion machineD ''C:/R/R-4.0.0/bin/x64'')
        (RVersion machineD ''C:/R/R-next/bin/x64'')
   \<and> allRVersions machineD [RVersion machineD ''C:/R/R-next/bin/x64'',
        RVersion machineD ''C:/R/R-4.0.0/bin/x64'']
       = [RVersion machineD ''C:/R/R-4.0.0/bin/x64'', RVersion machineD ''C:/R/R-next/bin/x64'']"
proof -
  have a: "RVersion machineD ''C:/R/R-next/bin/x64'' =
      \<lparr>binDir = ''C:/R/R-next/bin/x64'', homeDir = ''C:/R/R-next'',
       version = 0x80050000, architecture = ArchX64\<rparr>"
    by code_simp
  have b: "RVersion machineD ''C:/R/R-4.0.0/bin/x64'' =
      \<lparr>binDir = ''C:/R/R-4.0.0/bin/x64'', homeDir = ''C:/R/R-4.0.0'',
       version = 0x00040000, architecture = ArchX64\<rparr>"
    by code_simp
  show ?thesis
    unfolding a b by (intro conjI; code_simp)
qed


section \<open>The enumerators\<close>

text \<open>
  What holds of the enumerators when their source is missing: a home directory
  without bin directories adds nothing; a registry key that is missing adds nothing
  and logs nothing; any other failure to open it adds nothing and logs the error; a
  program files directory that does not exist, or has no \<^verbatim>\<open>R\<close> below it, adds
  nothing; and with none of the three variables set nothing is enumerated.
\<close>

lemma versionsFromRHome_missing:
  "cd h rHome ''bin'' = None \<Longrightarrow> cd h rHome ''bin/x64'' = None \<Longrightarrow>
   versionsFromRHome h rHome pResults = pResults"
  by (simp add: versionsFromRHome_def)

lemma enumRegistry_arch_missing_key:
  "registryView a = Some flags \<Longrightarrow>
   regOpen h key R_core_key (KEY_READ OR flags) = Inl no_such_file_or_directory \<Longrightarrow>
   enumRegistry_arch h a key pResults = (pResults, [])"
  by (simp add: enumRegistry_arch_def)

lemma enumRegistry_arch_other_error:
  "registryView a = Some flags \<Longrightarrow>
   regOpen h key R_core_key (KEY_READ OR flags) = Inl (other_error n) \<Longrightarrow>
   enumRegistry_arch h a key pResults = (pResults, [other_error n])"
  by (simp add: enumRegistry_arch_def)

lemma enumRegistry_arch_unsupported:
  "registryView a = None \<Longrightarrow> enumRegistry_arch h a key pResults = (pResults, [])"
  by (simp add: enumRegistry_arch_def)

lemma enumProgramFiles_dir_missing:
  "\<not> dirExists h (QDir progFiles) \<or> cd h (QDir progFiles) ''R'' = None \<Longrightarrow>
   enumProgramFiles_dir h progFiles pResults = pResults"
  by (auto simp: enumProgramFiles_dir_def Let_def)

lemma enumProgramFiles_unset:
  "environ h ''ProgramFiles'' = None \<Longrightarrow> environ h ''ProgramW6432'' = None \<Longrightarrow>
   environ h ''ProgramFiles(x86)'' = None \<Longrightarrow> enumProgramFiles h pResults = pResults"
  by (simp add: enumProgramFiles_def getenv_def removeDuplicates_def)


text \<open>
  Claim C9, at an input where the code departs from it. With \<^verbatim>\<open>R_HOME\<close> not set,
  \<^verbatim>\<open>allRVersions\<close> passes the empty string to \<^verbatim>\<open>versionsFromRHome\<close>, whose
  \<^verbatim>\<open>QDir\<close> is then the working directory: when that is an R home, its bin
  directories are candidates. (\<^verbatim>\<open>enumRegistry\<close> tests the install path for
  emptiness before the same call.)
\<close>

theorem R_HOME_unset_probes_working_directory:
  "environ machineC ''R_HOME'' = None
   \<and> getenv machineC ''R_HOME'' = []
   \<and> versionsFromRHome machineC (QDir (getenv machineC ''R_HOME'')) []
       = [RVersion machineC ''C:/R/R-3.5.1/bin/x64'']
   \<and> isValid machineC (RVersion machineC ''C:/R/R-3.5.1/bin/x64'')
   \<and> allRVersions machineC [] = [RVersion machineC ''C:/R/R-3.5.1/bin/x64'']
   \<and> autoDetect machineC ArchX64 False = RVersion machineC ''C:/R/R-3.5.1/bin/x64''"
proof -
  have a: "RVersion machineC ''C:/R/R-3.5.1/bin/x64'' =
      \<lparr>binDir = ''C:/R/R-3.5.1/bin/x64'', homeDir = ''C:/R/R-3.5.1'',
       version = 0x00030005, architecture = ArchX64\<rparr>"
    by code_simp
  show ?thesis
    unfolding a by (intro conjI; code_simp)
qed

section \<open>Automatic detection: the registry first\<close>

text \<open>
  Claim C3. In a build without \<^verbatim>\<open>CONDA_BUILD\<close>, \<^verbatim>\<open>autoDetect\<close> returns the preferred
  version of the current user's registry if that is valid, else the preferred
  version of the machine's registry if that is valid; else, if only the preferred
  is wanted, the empty version; else the first version of \<^verbatim>\<open>allRVersions\<close> with
  the architecture asked for, or the empty version if there is none.
\<close>

theorem autoDetect_order:
  "\<not> CONDA_BUILD h \<Longrightarrow>
   autoDetect h a preferredOnly =
     (let currentUser = fst (detectPreferredFromRegistry h HKEY_CURRENT_USER a);
          localMachine = fst (detectPreferredFromRegistry h HKEY_LOCAL_MACHINE a)
      in if isValid h currentUser then currentUser
         else if isValid h localMachine then localMachine
         else if preferredOnly then RVersion h []
         else (case find (\<lambda>v. architecture v = a) (allRVersions h []) of
                 Some v \<Rightarrow> v
               | None \<Rightarrow> RVersion h []))"
  by (simp add: autoDetect_def Let_def)

theorem autoDetect_order_witness:
  "\<not> CONDA_BUILD machineA
   \<and> \<not> isValid machineA (fst (detectPreferredFromRegistry machineA HKEY_CURRENT_USER ArchX64))
   \<and> isValid machineA (fst (detectPreferredFromRegistry machineA HKEY_LOCAL_MACHINE ArchX64))
   \<and> autoDetect machineA ArchX64 True = RVersion machineA ''C:/Program Files/R/R-4.2.0/bin/x64''
   \<and> autoDetect machineC ArchX64 True = RVersion machineC []
   \<and> autoDetect machineC ArchX64 False = RVersion machineC ''C:/R/R-3.5.1/bin/x64''"
proof -
  have a: "\<not> CONDA_BUILD machineA" "\<not> CONDA_BUILD machineC"
    by code_simp+
  have cu: "\<not> isValid machineA (fst (detectPreferredFromRegistry machineA HKEY_CURRENT_USER ArchX64))"
    by code_simp
  have lm: "isValid machineA (fst (detectPreferredFromRegistry machineA HKEY_LOCAL_MACHINE ArchX64))"
    "fst (detectPreferredFromRegistry machineA HKEY_LOCAL_MACHINE ArchX64)
       = RVersion machineA ''C:/Program Files/R/R-4.2.0/bin/x64''"
    by code_simp+
  have c: "\<not> isValid machineC (fst (detectPreferredFromRegistry machineC HKEY_CURRENT_USER ArchX64))"
    "\<not> isValid machineC (fst (detectPreferredFromRegistry machineC HKEY_LOCAL_MACHINE ArchX64))"
    "find (\<lambda>v. architecture v = ArchX64) (allRVersions machineC [])
       = Some (RVersion machineC ''C:/R/R-3.5.1/bin/x64'')"
    by code_simp+
  from autoDetect_order [OF a(1), of ArchX64 True] cu lm
  have 1: "autoDetect machineA ArchX64 True = RVersion machineA ''C:/Program Files/R/R-4.2.0/bin/x64''"
    by (simp add: Let_def)
  from autoDetect_order [OF a(2), of ArchX64 True] c
  have 2: "autoDetect machineC ArchX64 True = RVersion machineC []"
    by (simp add: Let_def)
  from autoDetect_order [OF a(2), of ArchX64 False] c
  have 3: "autoDetect machineC ArchX64 False = RVersion machineC ''C:/R/R-3.5.1/bin/x64''"
    by (simp add: Let_def)
  from a cu lm 1 2 3 show ?thesis
    by simp
qed


section \<open>De-duplication\<close>

text \<open>
  Sorting: where the versions are below \<open>2\<^sup>3\<^sup>1\<close> the sorted list is ascending in
  the key. De-duplication of such a list leaves at most one entry of each key, and
  every entry of the list has an entry with an equal bin directory left.
  \<^verbatim>\<open>operator==\<close> is an equivalence: equality of the folded bin directories.
\<close>

lemma sortKey_equals: "sortKey h a = sortKey h b \<Longrightarrow> RVersion_equals a b"
  by (simp add: sortKey_def RVersion_equals_def QString_compare_eq_0)

lemma set_qSort_insert: "set (qSort_insert h v xs) = insert v (set xs)"
  by (induction xs) auto

lemma set_qSort: "set (qSort h xs) = set xs"
  by (induction xs) (simp_all add: qSort_def set_qSort_insert)

lemma sorted_qSort_insert:
  assumes "uint (version v) < 2147483648" "\<forall>x \<in> set xs. uint (version x) < 2147483648"
    "sorted (map (sortKey h) xs)"
  shows "sorted (map (sortKey h) (qSort_insert h v xs))"
  using assms
proof (induction xs)
  case Nil
  show ?case by simp
next
  case (Cons x xs)
  show ?case
  proof (cases "RVersion_less h x v")
    case True
    then have "sortKey h x < sortKey h v"
      using Cons.prems by (simp add: RVersion_less_def compareTo_less)
    with True Cons show ?thesis
      by (auto simp: set_qSort_insert)
  next
    case False
    then have "sortKey h v \<le> sortKey h x"
      using Cons.prems by (simp add: RVersion_less_def compareTo_less)
    with False Cons.prems show ?thesis
      by auto
  qed
qed

lemma sorted_qSort:
  assumes "\<forall>x \<in> set xs. uint (version x) < 2147483648"
  shows "sorted (map (sortKey h) (qSort h xs))"
  using assms
proof (induction xs)
  case Nil
  show ?case by (simp add: qSort_def)
next
  case (Cons x xs)
  then have "sorted (map (sortKey h) (qSort h xs))"
    by simp
  with Cons.prems have "sorted (map (sortKey h) (qSort_insert h x (qSort h xs)))"
    by (intro sorted_qSort_insert) (simp_all add: set_qSort)
  then show ?case
    by (simp add: qSort_def)
qed

lemma set_deduplicate: "set (deduplicate xs) \<subseteq> set xs"
  by (induction xs rule: deduplicate.induct) auto

lemma deduplicate_classes:
  assumes "sorted (map (sortKey h) zs)"
  shows "length (filter (\<lambda>v. sortKey h v = k) (deduplicate zs)) \<le> 1"
  using assms
proof (induction zs rule: deduplicate.induct)
  case 1
  show ?case by simp
next
  case (2 x)
  show ?case by simp
next
  case (3 x y xs)
  show ?case
  proof (cases "RVersion_equals y x")
    case True
    with 3 show ?thesis by simp
  next
    case False
    from "3.prems" have sorted_tl: "sorted (map (sortKey h) (y # xs))"
      by simp
    with 3 False have ih: "length (filter (\<lambda>v. sortKey h v = k) (deduplicate (y # xs))) \<le> 1"
      by simp
    show ?thesis
    proof (cases "sortKey h x = k")
      case no: False
      with False ih show ?thesis by simp
    next
      case yes: True
      have "sortKey h z \<noteq> k" if "z \<in> set (y # xs)" for z
      proof
        assume "sortKey h z = k"
        from "3.prems" that have "sortKey h x \<le> sortKey h y" "sortKey h y \<le> sortKey h z"
          by auto
        with yes \<open>sortKey h z = k\<close> have "sortKey h y = sortKey h x"
          by simp
        then have "RVersion_equals y x"
          by (rule sortKey_equals)
        with False show False ..
      qed
      with set_deduplicate [of "y # xs"]
      have "filter (\<lambda>v. sortKey h v = k) (deduplicate (y # xs)) = []"
        by (auto simp: filter_empty_conv)
      with False yes show ?thesis by simp
    qed
  qed
qed

lemma length_filter_filter: "length (filter P (filter Q xs)) \<le> length (filter P xs)"
  by (induction xs) auto

lemma allRVersions_classes:
  assumes "\<forall>v \<in> set (allRVersions_candidates h seed).
             isValid h v \<longrightarrow> uint (version v) < 2147483648"
  shows "length (filter (\<lambda>v. compareTo h v a = 0) (allRVersions h seed)) \<le> 1"
proof -
  let ?valid = "filter (isValid h) (allRVersions_candidates h seed)"
  from assms have "sorted (map (sortKey h) (qSort h ?valid))"
    by (intro sorted_qSort) simp
  then have "length (filter (\<lambda>v. sortKey h v = sortKey h a) (deduplicate (qSort h ?valid))) \<le> 1"
    by (rule deduplicate_classes)
  moreover have "allRVersions h seed =
      filter (\<lambda>v. architecture v = ArchX64) (deduplicate (qSort h ?valid))"
    by (simp add: allRVersions_def allRVersions_passes_def)
  ultimately show ?thesis
    using length_filter_filter
      [of "\<lambda>v. sortKey h v = sortKey h a" "\<lambda>v. architecture v = ArchX64"
        "deduplicate (qSort h ?valid)"]
    by (simp add: compareTo_eq_0)
qed


lemma RVersion_equals_iff:
  "RVersion_equals a b \<longleftrightarrow> map foldCase (binDir a) = map foldCase (binDir b)"
  by (simp add: RVersion_equals_def QString_compare_eq_0)

lemma deduplicate_represents:
  "x \<in> set xs \<Longrightarrow> \<exists>y \<in> set (deduplicate xs). RVersion_equals x y"
proof (induction xs arbitrary: x rule: deduplicate.induct)
  case 1
  then show ?case by simp
next
  case (2 z)
  then show ?case by (simp add: RVersion_equals_iff)
next
  case (3 z y xs)
  show ?case
  proof (cases "RVersion_equals y z")
    case True
    from "3.prems" consider "x = y" | "x \<in> set (z # xs)"
      by auto
    then show ?thesis
    proof cases
      case 1
      from True "3.IH"(1) [of z] obtain y' where
        "y' \<in> set (deduplicate (z # xs))" "RVersion_equals z y'"
        by auto
      with True 1 show ?thesis
        by (auto simp: RVersion_equals_iff)
    next
      case 2
      with True "3.IH"(1) [of x] show ?thesis
        by auto
    qed
  next
    case False
    from "3.prems" consider "x = z" | "x \<in> set (y # xs)"
      by auto
    then show ?thesis
    proof cases
      case 1
      with False show ?thesis
        by (auto simp: RVersion_equals_iff)
    next
      case 2
      with False "3.IH"(2) [of x] show ?thesis
        by auto
    qed
  qed
qed

lemma length_filter_le_imp:
  "(\<And>x. x \<in> set xs \<Longrightarrow> P x \<Longrightarrow> Q x) \<Longrightarrow> length (filter P xs) \<le> length (filter Q xs)"
  by (induction xs) auto

lemma allRVersions_single_entry:
  assumes sane: "\<forall>v \<in> set (allRVersions_candidates h seed).
             isValid h v \<longrightarrow> uint (version v) < 2147483648"
    and c: "c \<in> set (allRVersions_candidates h seed)" "isValid h c" "architecture c = ArchX64"
    and agree: "\<forall>v \<in> set (allRVersions_candidates h seed).
             isValid h v \<and> RVersion_equals v c \<longrightarrow>
               version v = version c \<and> architecture v = architecture c
               \<and> QString_compare (homeDir v) (homeDir c) = 0"
  shows "length (filter (\<lambda>v. RVersion_equals v c) (allRVersions h seed)) = 1"
proof -
  let ?valid = "filter (isValid h) (allRVersions_candidates h seed)"
  let ?dd = "deduplicate (qSort h ?valid)"
  have all: "allRVersions h seed = filter (\<lambda>v. architecture v = ArchX64) ?dd"
    by (simp add: allRVersions_def allRVersions_passes_def)
  have sub: "set ?dd \<subseteq> set ?valid"
    using set_deduplicate [of "qSort h ?valid"] by (simp add: set_qSort)
  have same: "compareTo h v c = 0" if "v \<in> set ?valid" "RVersion_equals v c" for v
    using that agree
    by (auto simp: compareTo_eq_0 sortKey_def RVersion_equals_iff QString_compare_eq_0)
  have "length (filter (\<lambda>v. RVersion_equals v c) (allRVersions h seed))
      \<le> length (filter (\<lambda>v. compareTo h v c = 0) (allRVersions h seed))"
    using sub same by (intro length_filter_le_imp) (auto simp: all)
  also have "\<dots> \<le> 1"
    using sane by (rule allRVersions_classes)
  finally have le: "length (filter (\<lambda>v. RVersion_equals v c) (allRVersions h seed)) \<le> 1" .
  from c have "c \<in> set (qSort h ?valid)"
    by (simp add: set_qSort)
  then obtain y where y: "y \<in> set ?dd" "RVersion_equals c y"
    using deduplicate_represents by blast
  then have yc: "RVersion_equals y c"
    by (simp add: RVersion_equals_iff)
  with y sub agree c have "architecture y = ArchX64"
    by auto
  with y yc have "y \<in> set (filter (\<lambda>v. RVersion_equals v c) (allRVersions h seed))"
    by (simp add: all)
  then have "0 < length (filter (\<lambda>v. RVersion_equals v c) (allRVersions h seed))"
    by (cases "filter (\<lambda>v. RVersion_equals v c) (allRVersions h seed)") simp_all
  with le show ?thesis
    by linarith
qed

lemma RVersion_equals_sym: "RVersion_equals a b \<Longrightarrow> RVersion_equals b a"
  by (simp add: RVersion_equals_iff)

lemma RVersion_equals_trans:
  "RVersion_equals a b \<Longrightarrow> RVersion_equals b c \<Longrightarrow> RVersion_equals a c"
  by (simp add: RVersion_equals_iff)

lemma deduplicate_head: "\<exists>zs. deduplicate (x # xs) = x # zs"
  by (induction "x # xs" arbitrary: x xs rule: deduplicate.induct) auto

lemma deduplicate_idem: "deduplicate (deduplicate vs) = deduplicate vs"
proof (induction vs rule: deduplicate.induct)
  case 1
  show ?case by simp
next
  case (2 x)
  show ?case by simp
next
  case (3 x y xs)
  show ?case
  proof (cases "RVersion_equals y x")
    case True
    with 3 show ?thesis by simp
  next
    case False
    obtain zs where zs: "deduplicate (y # xs) = y # zs"
      using deduplicate_head by blast
    with 3 False show ?thesis by simp
  qed
qed

lemma deduplicate_adjacent:
  assumes "RVersion_equals b a"
  shows "deduplicate (pre @ a # b # post) = deduplicate (pre @ a # post)"
proof (induction pre rule: deduplicate.induct)
  case 1
  from assms show ?case by simp
next
  case (2 x)
  from assms show ?case
    by (auto dest: RVersion_equals_trans)
next
  case (3 x y xs)
  then show ?case by simp
qed


text \<open>
  Claim C8, as the code has it. De-duplication removes an entry whose bin directory
  equals, without regard to case, that of the entry kept before it in the sorted
  list, and de-duplicating twice changes nothing. A valid 64-bit candidate is
  represented by exactly one entry of the result, whatever other candidates have
  its bin directory in another case, provided these agree with it in version and
  architecture and, without regard to case, in home directory (as spellings of
  one directory do), and the versions of the valid candidates are below
  \<open>2\<^sup>3\<^sup>1\<close>. \<^verbatim>\<open>allRVersions\<close> is the four passes over the candidates, a function of the
  machine and of the versions passed in.
\<close>

theorem deduplicate_collapses:
  "deduplicate (deduplicate vs) = deduplicate vs
   \<and> (RVersion_equals b a \<longrightarrow>
        deduplicate (pre @ a # b # post) = deduplicate (pre @ a # post))
   \<and> ((\<forall>v \<in> set (allRVersions_candidates h seed).
          isValid h v \<longrightarrow> uint (version v) < 2147483648)
       \<and> c \<in> set (allRVersions_candidates h seed) \<and> isValid h c \<and> architecture c = ArchX64
       \<and> (\<forall>v \<in> set (allRVersions_candidates h seed).
            isValid h v \<and> RVersion_equals v c \<longrightarrow>
              version v = version c \<and> architecture v = architecture c
              \<and> QString_compare (homeDir v) (homeDir c) = 0)
      \<longrightarrow> length (filter (\<lambda>v. RVersion_equals v c) (allRVersions h seed)) = 1)
   \<and> allRVersions h seed =
       filter (\<lambda>v. architecture v = ArchX64)
         (deduplicate (qSort h (filter (isValid h) (allRVersions_candidates h seed))))"
  using allRVersions_single_entry [of h seed c]
  by (simp add: deduplicate_idem deduplicate_adjacent allRVersions_def allRVersions_passes_def)

theorem deduplicate_collapses_witness:
  "RVersion_equals (RVersion machineE ''c:/r/bin/x64'') (RVersion machineE ''C:/R/bin/x64'')
   \<and> deduplicate [RVersion machineE ''C:/R/bin/x64'', RVersion machineE ''c:/r/bin/x64'']
       = deduplicate [RVersion machineE ''C:/R/bin/x64'']
   \<and> allRVersions_candidates machineE
         [RVersion machineE ''C:/R/bin/x64'', RVersion machineE ''D:/R/bin/x64'',
          RVersion machineE ''c:/r/bin/x64'']
       = [RVersion machineE ''C:/R/bin/x64'', RVersion machineE ''D:/R/bin/x64'',
          RVersion machineE ''c:/r/bin/x64'']
   \<and> length (filter (\<lambda>v. RVersion_equals v (RVersion machineE ''C:/R/bin/x64''))
         (allRVersions machineE
            [RVersion machineE ''C:/R/bin/x64'', RVersion machineE ''D:/R/bin/x64'',
             RVersion machineE ''c:/r/bin/x64''])) = 1"
proof -
  let ?a = "RVersion machineE ''C:/R/bin/x64''" and ?d = "RVersion machineE ''D:/R/bin/x64''"
    and ?b = "RVersion machineE ''c:/r/bin/x64''"
  have a: "?a = \<lparr>binDir = ''C:/R/bin/x64'', homeDir = ''C:/R'', version = 0x00040002,
       architecture = ArchX64\<rparr>"
    and d: "?d = \<lparr>binDir = ''D:/R/bin/x64'', homeDir = ''D:/R'', version = 0x00040001,
       architecture = ArchX64\<rparr>"
    and b: "?b = \<lparr>binDir = ''c:/r/bin/x64'', homeDir = ''c:/r'', version = 0x00040002,
       architecture = ArchX64\<rparr>"
    by code_simp+
  have eq: "RVersion_equals ?b ?a"
    unfolding a b by code_simp
  have cands: "allRVersions_candidates machineE [?a, ?d, ?b] = [?a, ?d, ?b]"
    unfolding a d b by code_simp
  have valid: "isValid machineE ?a"
    unfolding a by code_simp
  have sane: "\<forall>v \<in> set [?a, ?d, ?b]. isValid machineE v \<longrightarrow> uint (version v) < 2147483648"
    unfolding a d b by simp
  have agree: "\<forall>v \<in> set [?a, ?d, ?b]. isValid machineE v \<and> RVersion_equals v ?a \<longrightarrow>
      version v = version ?a \<and> architecture v = architecture ?a
      \<and> QString_compare (homeDir v) (homeDir ?a) = 0"
  proof -
    have "\<not> RVersion_equals ?d ?a" "QString_compare (homeDir ?b) (homeDir ?a) = 0"
      "QString_compare (homeDir ?a) (homeDir ?a) = 0"
      unfolding a d b by code_simp+
    then show ?thesis
      by (simp add: a b)
  qed
  note collapses = deduplicate_collapses [of "[]" ?b ?a "[]" "[]" machineE "[?a, ?d, ?b]" ?a]
  from collapses [THEN conjunct2, THEN conjunct1] eq
  have 1: "deduplicate [?a, ?b] = deduplicate [?a]"
    by simp
  have arch: "architecture ?a = ArchX64"
    by (simp add: a)
  have "(\<forall>v \<in> set (allRVersions_candidates machineE [?a, ?d, ?b]).
          isValid machineE v \<longrightarrow> uint (version v) < 2147483648)
       \<and> ?a \<in> set (allRVersions_candidates machineE [?a, ?d, ?b])
       \<and> isValid machineE ?a \<and> architecture ?a = ArchX64
       \<and> (\<forall>v \<in> set (allRVersions_candidates machineE [?a, ?d, ?b]).
            isValid machineE v \<and> RVersion_equals v ?a \<longrightarrow>
              version v = version ?a \<and> architecture v = architecture ?a
              \<and> QString_compare (homeDir v) (homeDir ?a) = 0)"
    unfolding cands by (intro conjI sane agree valid arch) simp
  with collapses [THEN conjunct2, THEN conjunct2, THEN conjunct1]
  have 2: "length (filter (\<lambda>v. RVersion_equals v ?a) (allRVersions machineE [?a, ?d, ?b])) = 1"
    by (rule mp)
  from eq 1 cands 2 show ?thesis
    by (intro conjI)
qed

text \<open>
  Claim C8 as stated fails. Candidates whose bin directories differ in case only
  are both kept when a candidate of a version between theirs sorts between them.
\<close>

theorem allRVersions_keeps_separated_duplicates:
  "RVersion_equals (RVersion machineB ''c:/r/bin/x64'') (RVersion machineB ''C:/R/bin/x64'')
   \<and> RVersion machineB ''c:/r/bin/x64'' \<noteq> RVersion machineB ''C:/R/bin/x64''
   \<and> allRVersions machineB
         [RVersion machineB ''C:/R/bin/x64'', RVersion machineB ''D:/R/bin/x64'',
          RVersion machineB ''c:/r/bin/x64'']
       = [RVersion machineB ''C:/R/bin/x64'', RVersion machineB ''D:/R/bin/x64'',
          RVersion machineB ''c:/r/bin/x64'']"
proof -
  have a: "RVersion machineB ''C:/R/bin/x64'' =
      \<lparr>binDir = ''C:/R/bin/x64'', homeDir = ''C:/R'', version = 0x00040002,
       architecture = ArchX64\<rparr>"
    and b: "RVersion machineB ''D:/R/bin/x64'' =
      \<lparr>binDir = ''D:/R/bin/x64'', homeDir = ''D:/R'', version = 0x00040001,
       architecture = ArchX64\<rparr>"
    and c: "RVersion machineB ''c:/r/bin/x64'' =
      \<lparr>binDir = ''c:/r/bin/x64'', homeDir = ''c:/r'', version = 0x00040000,
       architecture = ArchX64\<rparr>"
    by code_simp+
  show ?thesis
    unfolding a b c by (intro conjI; code_simp)
qed

section \<open>The versions returned\<close>

text \<open>
  Every entry of \<^verbatim>\<open>allRVersions\<close> is valid and 64-bit. A preferred version of the
  registry that is valid has the architecture asked for; so what \<^verbatim>\<open>autoDetect\<close>
  returns is the empty version, or valid and of the architecture asked for.
\<close>

lemma find_Some_holds: "find P xs = Some x \<Longrightarrow> P x \<and> x \<in> set xs"
  by (induction xs) (auto split: if_splits)

lemma allRVersions_valid:
  assumes "v \<in> set (allRVersions h seed)"
  shows "isValid h v \<and> architecture v = ArchX64"
proof -
  let ?valid = "filter (isValid h) (allRVersions_candidates h seed)"
  from assms have "v \<in> set (deduplicate (qSort h ?valid))" "architecture v = ArchX64"
    by (simp_all add: allRVersions_def allRVersions_passes_def)
  with set_deduplicate [of "qSort h ?valid"] show ?thesis
    by (auto simp: set_qSort)
qed

lemma detectPreferredFromRegistry_valid:
  assumes "isValid h (fst (detectPreferredFromRegistry h key a))"
  shows "architecture (fst (detectPreferredFromRegistry h key a)) = a"
  using assms
  by (auto simp: detectPreferredFromRegistry_def empty_not_valid Let_def
      split: option.splits sum.splits dest: find_Some_holds)

lemma autoDetect_valid_or_empty:
  assumes "\<not> CONDA_BUILD h"
  shows "autoDetect h a preferredOnly = RVersion h []
    \<or> isValid h (autoDetect h a preferredOnly) \<and> architecture (autoDetect h a preferredOnly) = a"
  using assms allRVersions_valid [of _ h "[]"]
  by (auto simp: autoDetect_def Let_def detectPreferredFromRegistry_valid
      split: option.splits dest!: find_Some_holds)

section \<open>Choosing the version: the two passes\<close>

lemma detectRVersion_unfold:
  "detectRVersion h forceUi s =
     (if \<not> reachesDialog h forceUi s
      then Some (if isEmpty (tentative h s) then autoDetect h ArchX64 False else tentative h s, s)
      else (case answers s of
              [] \<Rightarrow> None
            | dialog # rest \<Rightarrow>
                (case dialog (allRVersions h [tentative h s]) (tentative h s)
                        (desktopRenderingEngine s) of
                   Rejected \<Rightarrow>
                     Some (RVersion h [], s\<lparr>answers := rest, shown := shown s @ [ChooseRHome]\<rparr>)
                 | Accepted chosen engine \<Rightarrow>
                     if desktopRenderingEngine s \<noteq> engine
                     then Some (RVersion h [],
                            s\<lparr>answers := rest,
                              shown := shown s @ [ChooseRHome, RenderingEngineChanged],
                              rBinDir := binDir chosen, desktopRenderingEngine := engine\<rparr>)
                     else detectRVersion h False
                            (s\<lparr>answers := rest, shown := shown s @ [ChooseRHome],
                               rBinDir := binDir chosen, desktopRenderingEngine := engine\<rparr>))))"
  by (subst detectRVersion.simps)
    (auto simp: Let_def tentative_def reachesDialog_def split: list.splits DialogResult.splits)


lemma stale_not_X64:
  assumes "\<not> fileExists h (absoluteFilePath h (QDir d) ''R.dll'')"
  shows "architecture (RVersion h d) \<noteq> ArchX64"
  using assms by (simp add: RVersion_def Let_def getArch_def)

lemma exampleSession_simps:
  "rBinDir (exampleSession d rs) = d"
  "desktopRenderingEngine (exampleSession d rs) = ''auto''"
  "answers (exampleSession d (r # rs)) = (\<lambda>versions current engine. r) # answers (exampleSession d rs)"
  "shown (exampleSession d rs) = []"
  by (simp_all add: exampleSession_def)

text \<open>
  Claim C1, as the code has it. With \<open>forceUi\<close> false: a current version that is not
  empty, 64-bit and valid is returned at once, and nothing else happens. When the
  current version is empty or not 64-bit (as it is when its \<^verbatim>\<open>R.dll\<close> no longer
  exists), the autodetected version is returned if it is valid, and nothing else
  happens. When the current version is not empty and 64-bit but not valid,
  autodetection is not consulted: the call goes on as a forced one does.
\<close>

theorem detectRVersion_not_forced:
  "(\<not> isEmpty (RVersion h (rBinDir s)) \<and> architecture (RVersion h (rBinDir s)) = ArchX64
      \<and> isValid h (RVersion h (rBinDir s))
     \<longrightarrow> detectRVersion h False s = Some (RVersion h (rBinDir s), s))
   \<and> ((isEmpty (RVersion h (rBinDir s)) \<or> architecture (RVersion h (rBinDir s)) \<noteq> ArchX64)
      \<and> isValid h (autoDetect h ArchX64 False)
     \<longrightarrow> detectRVersion h False s = Some (autoDetect h ArchX64 False, s))
   \<and> (\<not> fileExists h (absoluteFilePath h (QDir (rBinDir s)) ''R.dll'')
      \<and> isValid h (autoDetect h ArchX64 False)
     \<longrightarrow> detectRVersion h False s = Some (autoDetect h ArchX64 False, s))
   \<and> (\<not> isEmpty (RVersion h (rBinDir s)) \<and> architecture (RVersion h (rBinDir s)) = ArchX64
      \<and> \<not> isValid h (RVersion h (rBinDir s))
     \<longrightarrow> detectRVersion h False s = detectRVersion h True s)"
proof (intro conjI impI)
  let ?c = "RVersion h (rBinDir s)" and ?auto = "autoDetect h ArchX64 False"
  show "detectRVersion h False s = Some (?c, s)"
    if "\<not> isEmpty ?c \<and> architecture ?c = ArchX64 \<and> isValid h ?c"
    using that
    by (subst detectRVersion_unfold) (simp add: reachesDialog_def tentative_def Let_def)
  have auto: "detectRVersion h False s = Some (?auto, s)"
    if "isEmpty ?c \<or> architecture ?c \<noteq> ArchX64" "isValid h ?auto"
  proof -
    from that(1) have "tentative h s = RVersion h []"
      by (auto simp: tentative_def Let_def)
    with that(2) show ?thesis
      by (subst detectRVersion_unfold) (simp add: reachesDialog_def isEmpty_RVersion)
  qed
  show "detectRVersion h False s = Some (?auto, s)"
    if "(isEmpty ?c \<or> architecture ?c \<noteq> ArchX64) \<and> isValid h ?auto"
    using that auto by blast
  show "detectRVersion h False s = Some (?auto, s)"
    if "\<not> fileExists h (absoluteFilePath h (QDir (rBinDir s)) ''R.dll'') \<and> isValid h ?auto"
    using that auto stale_not_X64 by blast
  show "detectRVersion h False s = detectRVersion h True s"
    if "\<not> isEmpty ?c \<and> architecture ?c = ArchX64 \<and> \<not> isValid h ?c"
  proof -
    from that have "reachesDialog h False s"
      by (simp add: reachesDialog_def tentative_def Let_def)
    moreover have "reachesDialog h True s"
      by (simp add: reachesDialog_def)
    ultimately show ?thesis
      by (subst detectRVersion_unfold, subst (2) detectRVersion_unfold) simp
  qed
qed

theorem detectRVersion_not_forced_witness:
  "\<not> isEmpty (RVersion machineA ''C:/Program Files/R/R-4.2.0/bin/x64'')
   \<and> architecture (RVersion machineA ''C:/Program Files/R/R-4.2.0/bin/x64'') = ArchX64
   \<and> isValid machineA (RVersion machineA ''C:/Program Files/R/R-4.2.0/bin/x64'')
   \<and> detectRVersion machineA False (exampleSession ''C:/Program Files/R/R-4.2.0/bin/x64'' [])
       = Some (RVersion machineA ''C:/Program Files/R/R-4.2.0/bin/x64'',
               exampleSession ''C:/Program Files/R/R-4.2.0/bin/x64'' [])
   \<and> \<not> fileExists machineA (absoluteFilePath machineA (QDir ''C:/gone/bin/x64'') ''R.dll'')
   \<and> isValid machineA (autoDetect machineA ArchX64 False)
   \<and> detectRVersion machineA False (exampleSession ''C:/gone/bin/x64'' [])
       = Some (autoDetect machineA ArchX64 False, exampleSession ''C:/gone/bin/x64'' [])
   \<and> \<not> isValid machineA (RVersion machineA ''C:/old/R-2.15/bin/x64'')
   \<and> detectRVersion machineA False (exampleSession ''C:/old/R-2.15/bin/x64'' [Rejected])
       = detectRVersion machineA True (exampleSession ''C:/old/R-2.15/bin/x64'' [Rejected])"
proof -
  let ?new = "''C:/Program Files/R/R-4.2.0/bin/x64''" and ?gone = "''C:/gone/bin/x64''"
    and ?old = "''C:/old/R-2.15/bin/x64''"
  have new: "\<not> isEmpty (RVersion machineA ?new)"
    "architecture (RVersion machineA ?new) = ArchX64" "isValid machineA (RVersion machineA ?new)"
    by code_simp+
  have gone: "\<not> fileExists machineA (absoluteFilePath machineA (QDir ?gone) ''R.dll'')"
    by code_simp
  have auto: "isValid machineA (autoDetect machineA ArchX64 False)"
    by code_simp
  have old: "\<not> isEmpty (RVersion machineA ?old)"
    "architecture (RVersion machineA ?old) = ArchX64" "\<not> isValid machineA (RVersion machineA ?old)"
    by code_simp+
  from detectRVersion_not_forced [of machineA "exampleSession ?new []"] new
  have 1: "detectRVersion machineA False (exampleSession ?new [])
      = Some (RVersion machineA ?new, exampleSession ?new [])"
    by (simp add: exampleSession_simps)
  from detectRVersion_not_forced [of machineA "exampleSession ?gone []"] gone auto
  have 2: "detectRVersion machineA False (exampleSession ?gone [])
      = Some (autoDetect machineA ArchX64 False, exampleSession ?gone [])"
    by (simp add: exampleSession_simps)
  from detectRVersion_not_forced [of machineA "exampleSession ?old [Rejected]"] old
  have 3: "detectRVersion machineA False (exampleSession ?old [Rejected])
      = detectRVersion machineA True (exampleSession ?old [Rejected])"
    by (simp add: exampleSession_simps)
  from new gone auto old 1 2 3 show ?thesis
    by simp
qed

text \<open>
  Claim C1 as stated fails. The stored choice is a 64-bit R 2.15, too old to be
  valid; autodetection would give a valid R 4.2; the dialog is shown all the same,
  and when the user rejects it the result is the empty version.
\<close>

theorem invalid_choice_not_autodetected:
  "\<not> isEmpty (RVersion machineA ''C:/old/R-2.15/bin/x64'')
   \<and> architecture (RVersion machineA ''C:/old/R-2.15/bin/x64'') = ArchX64
   \<and> \<not> isValid machineA (RVersion machineA ''C:/old/R-2.15/bin/x64'')
   \<and> isValid machineA (autoDetect machineA ArchX64 False)
   \<and> detectRVersion machineA False (exampleSession ''C:/old/R-2.15/bin/x64'' [Rejected])
       \<noteq> Some (autoDetect machineA ArchX64 False,
                 exampleSession ''C:/old/R-2.15/bin/x64'' [Rejected])
   \<and> map_option fst
         (detectRVersion machineA False (exampleSession ''C:/old/R-2.15/bin/x64'' [Rejected]))
       = Some (RVersion machineA [])
   \<and> map_option (shown \<circ> snd)
         (detectRVersion machineA False (exampleSession ''C:/old/R-2.15/bin/x64'' [Rejected]))
       = Some [ChooseRHome]"
proof -
  let ?s = "exampleSession ''C:/old/R-2.15/bin/x64'' [Rejected]"
  have old: "\<not> isEmpty (RVersion machineA ''C:/old/R-2.15/bin/x64'')"
    "architecture (RVersion machineA ''C:/old/R-2.15/bin/x64'') = ArchX64"
    "\<not> isValid machineA (RVersion machineA ''C:/old/R-2.15/bin/x64'')"
    by code_simp+
  have auto: "isValid machineA (autoDetect machineA ArchX64 False)"
    by code_simp
  have res: "map_option fst (detectRVersion machineA False ?s) = Some (RVersion machineA [])"
    by code_simp
  have dlg: "map_option (shown \<circ> snd) (detectRVersion machineA False ?s) = Some [ChooseRHome]"
    by code_simp
  from res auto have "detectRVersion machineA False ?s
      \<noteq> Some (autoDetect machineA ArchX64 False, ?s)"
    using empty_not_valid [of machineA] by auto
  with old auto res dlg show ?thesis
    by simp
qed







end
